theory Spec2Isabelle
  imports Complex_Main
begin

section \<open>Numeric helpers\<close>

text \<open>
  JavaScript numbers are modelled as real numbers: the optimizers only add, multiply,
  divide by guarded denominators, compare and clamp.  \<open>clamp\<close> is
  \<^verbatim>\<open>Math.max(min, Math.min(max, val))\<close>; \<open>mathRound\<close> is \<^verbatim>\<open>Math.round\<close>
  (round half up).
\<close>

definition clamp :: "real \<Rightarrow> real \<Rightarrow> real \<Rightarrow> real" where
  "clamp val mn mx = max mn (min mx val)"

definition mathRound :: "real \<Rightarrow> int" where
  "mathRound x = \<lfloor>x + 1 / 2\<rfloor>"

section \<open>Blend catalog\<close>

text \<open>The names of the entries of \<^verbatim>\<open>blendModes\<close>, in catalog order.\<close>

definition blendModeNames :: "string list" where
  "blendModeNames =
     [''Normal'', ''Multiply'', ''Screen'', ''Subtract'', ''Divide'', ''Difference'',
      ''Overlay'', ''Hard Light'', ''Soft Light (Pegtop)'', ''Color Burn'', ''Linear Burn'',
      ''Color Dodge'', ''Linear Dodge (Add)'', ''Vivid Light'', ''Linear Light'',
      ''Pin Light'', ''Hard Mix'']"

definition vividLightChannel :: "real \<Rightarrow> real \<Rightarrow> real" where
  "vividLightChannel s b =
     (if b < 0.5 then (if b \<le> 0 then 0 else 1 - (1 - s) / (2 * b))
      else if b \<ge> 1 then 1
      else s / (2 * (1 - b)))"

text \<open>The \<^verbatim>\<open>switch\<close> of \<^verbatim>\<open>applyBlendChannel\<close>, case by case, \<^verbatim>\<open>default\<close> last.\<close>

definition applyBlendChannel :: "string \<Rightarrow> real \<Rightarrow> real \<Rightarrow> real" where
  "applyBlendChannel modeName s b =
     (if modeName = ''Normal'' then b
      else if modeName = ''Multiply'' then s * b
      else if modeName = ''Screen'' then 1 - (1 - s) * (1 - b)
      else if modeName = ''Linear Dodge (Add)'' then clamp (s + b) 0 1
      else if modeName = ''Subtract'' then clamp (s - b) 0 1
      else if modeName = ''Divide'' then (if b = 0 then (if s = 0 then 0 else 1) else s / b)
      else if modeName = ''Difference'' then \<bar>s - b\<bar>
      else if modeName = ''Overlay'' then
        (if s < 0.5 then 2 * s * b else 1 - 2 * (1 - s) * (1 - b))
      else if modeName = ''Hard Light'' then
        (if b < 0.5 then 2 * s * b else 1 - 2 * (1 - s) * (1 - b))
      else if modeName = ''Soft Light (Pegtop)'' then (1 - 2 * b) * s * s + 2 * b * s
      else if modeName = ''Color Burn'' then (if b = 0 then 0 else 1 - (1 - s) / b)
      else if modeName = ''Linear Burn'' then clamp (s + b - 1) 0 1
      else if modeName = ''Color Dodge'' then (if b = 1 then 1 else s / (1 - b))
      else if modeName = ''Vivid Light'' then vividLightChannel s b
      else if modeName = ''Linear Light'' then clamp (s + 2 * b - 1) 0 1
      else if modeName = ''Pin Light'' then
        (if b < 0.5 then min s (2 * b) else max s (2 * b - 1))
      else if modeName = ''Hard Mix'' then (if vividLightChannel s b < 0.5 then 0 else 1)
      else s)"

text \<open>
  The value an analytic inverse hands back: \<^verbatim>\<open>null\<close>, a non-finite number
  (\<^verbatim>\<open>NaN\<close>, \<^verbatim>\<open>\<plusminus>Infinity\<close>), or a finite number.
\<close>

datatype jsnum = Null | NonFinite | Finite real

record blendMode =
  name :: string
  inverse_m :: "real \<Rightarrow> real \<Rightarrow> jsnum"

text \<open>
  A quotient \<^verbatim>\<open>x / y\<close> with \<open>y \<noteq> 0\<close>, where the callers tell a finite result from
  \<^verbatim>\<open>\<plusminus>Infinity\<close>: a double quotient overflows to an infinity as soon as its magnitude
  reaches $2^{1024} - 2^{970}$, the midpoint between the largest double and $2^{1024}$.
  Below that bound the quotient is kept as the real number.
\<close>

definition overflowBound :: real where
  "overflowBound = 2 ^ 1024 - 2 ^ 970"

definition jsQuotient :: "real \<Rightarrow> real \<Rightarrow> jsnum" where
  "jsQuotient x y = (if overflowBound \<le> \<bar>x / y\<bar> then NonFinite else Finite (x / y))"

text \<open>\<^verbatim>\<open>(s, t) => (s === 0 ? (t === 0 ? 0.5 : null) : t / s)\<close>\<close>

definition multiplyInverse :: "real \<Rightarrow> real \<Rightarrow> jsnum" where
  "multiplyInverse s t = (if s = 0 then (if t = 0 then Finite 0.5 else Null) else jsQuotient t s)"

definition multiplyMode :: blendMode where
  "multiplyMode = \<lparr>name = ''Multiply'', inverse_m = multiplyInverse\<rparr>"


text \<open>
  \<^verbatim>\<open>applyBlendChannel('Multiply', s, b)\<close>, that is \<^verbatim>\<open>s * b\<close>, on a value \<open>b\<close> that an
  inverse handed back: \<^verbatim>\<open>null\<close> counts as 0 in a product, and the product of a number
  with an infinity or \<^verbatim>\<open>NaN\<close> is an infinity or \<^verbatim>\<open>NaN\<close>.
\<close>

definition multiplyForward :: "real \<Rightarrow> jsnum \<Rightarrow> jsnum" where
  "multiplyForward s b =
     (case b of
        Null \<Rightarrow> Finite (applyBlendChannel ''Multiply'' s 0)
      | NonFinite \<Rightarrow> NonFinite
      | Finite x \<Rightarrow> Finite (applyBlendChannel ''Multiply'' s x))"

section \<open>Colors and pairs\<close>

text \<open>
  \<^verbatim>\<open>hexToRgb\<close>: the regular expression
  \<^verbatim>\<open>/^#?([a-f\d]{2})([a-f\d]{2})([a-f\d]{2})$/i\<close> followed by three
  \<^verbatim>\<open>parseInt(_, 16)\<close>; \<^verbatim>\<open>null\<close> is \<open>None\<close>.
\<close>

definition hexDigit :: "char \<Rightarrow> int option" where
  "hexDigit c =
     (let n = (of_char c :: nat) in
      if 48 \<le> n \<and> n \<le> 57 then Some (int n - 48)
      else if 97 \<le> n \<and> n \<le> 102 then Some (int n - 87)
      else if 65 \<le> n \<and> n \<le> 70 then Some (int n - 55)
      else None)"

fun hexByte :: "char \<Rightarrow> char \<Rightarrow> int option" where
  "hexByte c d =
     (case (hexDigit c, hexDigit d) of
        (Some h, Some l) \<Rightarrow> Some (16 * h + l)
      | _ \<Rightarrow> None)"

fun hexBody :: "string \<Rightarrow> int list option" where
  "hexBody [r1, r2, g1, g2, b1, b2] =
     (case (hexByte r1 r2, hexByte g1 g2, hexByte b1 b2) of
        (Some r, Some g, Some b) \<Rightarrow> Some [r, g, b]
      | _ \<Rightarrow> None)"
| "hexBody _ = None"

fun hexToRgb :: "string \<Rightarrow> int list option" where
  "hexToRgb (c # cs) = (if c = CHR ''#'' then hexBody cs else hexBody (c # cs))"
| "hexToRgb [] = None"

text \<open>
  \<^verbatim>\<open>rgbToHex\<close>: each channel is clamped to 0..255, rounded and printed as two
  lower-case hexadecimal digits.
\<close>

definition hexChar :: "int \<Rightarrow> char" where
  "hexChar d = (if d < 10 then char_of (48 + d) else char_of (87 + d))"

definition hexPair :: "real \<Rightarrow> string" where
  "hexPair x = (let h = mathRound (clamp x 0 255) in [hexChar (h div 16), hexChar (h mod 16)])"

definition rgbToHex :: "real \<Rightarrow> real \<Rightarrow> real \<Rightarrow> string" where
  "rgbToHex r g b = CHR ''#'' # hexPair r @ hexPair g @ hexPair b"

text \<open>
  A color pair as the state holds it: \<open>source\<close> and \<open>target\<close> are \<^verbatim>\<open>null\<close>
  until picked, then hex strings; \<open>weight\<close> may be \<^verbatim>\<open>undefined\<close>.
\<close>

record pair =
  source :: "string option"
  target :: "string option"
  weight :: "real option"

text \<open>Truthiness of a nullable string: \<^verbatim>\<open>null\<close> and the empty string are falsy.\<close>

fun truthy :: "string option \<Rightarrow> bool" where
  "truthy None = False"
| "truthy (Some s) = (s \<noteq> [])"

text \<open>\<^verbatim>\<open>pairs.filter(p => p.source && p.target)\<close>\<close>

definition validPairs :: "pair list \<Rightarrow> pair list" where
  "validPairs pairs = filter (\<lambda>p. truthy (source p) \<and> truthy (target p)) pairs"

text \<open>\<^verbatim>\<open>hexToRgb\<close> on a field that may be \<^verbatim>\<open>null\<close>: the regular expression does not match.\<close>

fun parseColor :: "string option \<Rightarrow> int list option" where
  "parseColor None = None"
| "parseColor (Some s) = hexToRgb s"

text \<open>\<^verbatim>\<open>pair.weight !== undefined ? pair.weight : 1\<close>\<close>

fun weightOf :: "pair \<Rightarrow> real" where
  "weightOf p = (case weight p of None \<Rightarrow> 1 | Some w \<Rightarrow> w)"

section \<open>Weighted error of a candidate\<close>

record pairResult =
  prSource :: "string option"
  prTarget :: "string option"
  prWeight :: real
  achieved :: string
  achievedRgb :: "int list"
  error :: real

record errorStats =
  totalError :: real
  avgError :: real
  maxError :: real
  perPairResults :: "pairResult list"

text \<open>
  The loop that \<^verbatim>\<open>computeBlendError\<close>, \<^verbatim>\<open>computeHslError\<close> and
  \<^verbatim>\<open>computeLevelsError\<close> share; they differ only in how the achieved color is
  obtained from the source color (\<open>achieve\<close>).  The accumulator is
  (\<^verbatim>\<open>perPairResults\<close>, \<^verbatim>\<open>totalWeightedError\<close>, \<^verbatim>\<open>totalWeight\<close>,
  \<^verbatim>\<open>maxError\<close>).  The perceptual distance
  \<^verbatim>\<open>deltaE(rgbToLab(...tRgb), rgbToLab(...achievedRgb))\<close> is the parameter \<open>dE\<close>.
\<close>

type_synonym errAcc = "pairResult list \<times> real \<times> real \<times> real"

definition errorStep ::
  "(int list \<Rightarrow> int list \<Rightarrow> real) \<Rightarrow> (int list \<Rightarrow> int list) \<Rightarrow> errAcc \<Rightarrow> pair \<Rightarrow> errAcc" where
  "errorStep dE achieve acc p =
     (case acc of (results, totalWeightedError, totalWeight, maxErr) \<Rightarrow>
        (case (parseColor (source p), parseColor (target p)) of
           (Some sRgb, Some tRgb) \<Rightarrow>
             (let w = weightOf p;
                  aRgb = achieve sRgb;
                  e = dE tRgb aRgb
              in (results @ [\<lparr>prSource = source p, prTarget = target p, prWeight = w,
                                achieved = rgbToHex (real_of_int (aRgb ! 0)) (real_of_int (aRgb ! 1))
                                             (real_of_int (aRgb ! 2)),
                                achievedRgb = aRgb, error = e\<rparr>],
                  totalWeightedError + e * w, totalWeight + w, max maxErr e))
         | _ \<Rightarrow> acc))"

definition computeError ::
  "(int list \<Rightarrow> int list \<Rightarrow> real) \<Rightarrow> (int list \<Rightarrow> int list) \<Rightarrow> pair list \<Rightarrow> errorStats" where
  "computeError dE achieve pairs =
     (case foldl (errorStep dE achieve) ([], 0, 0, 0) pairs of
        (results, totalWeightedError, totalWeight, maxErr) \<Rightarrow>
          \<lparr>totalError = totalWeightedError,
           avgError = (if totalWeight > 0 then totalWeightedError / totalWeight else 0),
           maxError = maxErr,
           perPairResults = results\<rparr>)"

text \<open>
  \<^verbatim>\<open>computeBlendError\<close>: the achieved color is the forward blend of each channel,
  clamped to the unit interval and rounded to 8 bits.
\<close>

definition blendAchieved :: "string \<Rightarrow> real list \<Rightarrow> int list \<Rightarrow> int list" where
  "blendAchieved modeName blendNorm sRgb =
     map (\<lambda>i. mathRound (clamp (applyBlendChannel modeName (real_of_int (sRgb ! i) / 255)
                                    (blendNorm ! i)) 0 1 * 255)) [0, 1, 2]"

definition computeBlendError ::
  "(int list \<Rightarrow> int list \<Rightarrow> real) \<Rightarrow> string \<Rightarrow> pair list \<Rightarrow> real list \<Rightarrow> errorStats" where
  "computeBlendError dE modeName pairs blendNorm =
     computeError dE (blendAchieved modeName blendNorm) pairs"

section \<open>Nelder-Mead simplex search\<close>

text \<open>
  The sources hold four copies of the simplex loop: \<^verbatim>\<open>nelderMead\<close> (optimizer.js),
  \<^verbatim>\<open>nelderMeadMultiDim\<close> (multiStepOptimizer.js), \<^verbatim>\<open>nelderMead5D\<close> (levels tool)
  and \<^verbatim>\<open>nelderMead3D\<close> (hslTool.js).  The loop body is the same text in all four up
  to the clamp applied to a new vertex; the copies differ in how the initial simplex is
  built and (for \<^verbatim>\<open>nelderMead\<close>) in the sort step.  The state holds the arrays
  \<^verbatim>\<open>simplex\<close> and \<^verbatim>\<open>values\<close>, and, as a ghost field, the list of points the
  objective has been called on, in call order.
\<close>

record nmState =
  simplex :: "real list list"
  fvalues :: "real list"
  calls :: "real list list"

definition alpha :: real where "alpha = 1"
definition gamma :: real where "gamma = 2"
definition rho :: real where "rho = 1 / 2"
definition sigma :: real where "sigma = 1 / 2"

text \<open>\<^verbatim>\<open>xs.indexOf(x)\<close> for an \<open>x\<close> that occurs in \<open>xs\<close>.\<close>

definition indexOf :: "'a list \<Rightarrow> 'a \<Rightarrow> nat" where
  "indexOf xs x = length (takeWhile (\<lambda>y. y \<noteq> x) xs)"

text \<open>
  \<^verbatim>\<open>values.map((v, i) => i).sort((a, b) => values[a] - values[b])\<close>: the indices in
  ascending order of their value, ties in index order (the sort is stable).
\<close>

definition sortedIndices :: "real list \<Rightarrow> nat list" where
  "sortedIndices vs = sort_key (\<lambda>i. vs ! i) [0..<length vs]"

text \<open>
  The sort step of \<^verbatim>\<open>nelderMeadMultiDim\<close>, \<^verbatim>\<open>nelderMead5D\<close> and
  \<^verbatim>\<open>nelderMead3D\<close>: both arrays are rebuilt from \<^verbatim>\<open>indices\<close>.
\<close>

definition nmSort :: "nmState \<Rightarrow> nmState" where
  "nmSort st =
     (let indices = sortedIndices (fvalues st)
      in st\<lparr>simplex := map (\<lambda>i. simplex st ! i) indices,
            fvalues := map (\<lambda>i. fvalues st ! i) indices\<rparr>)"

text \<open>
  The sort step of \<^verbatim>\<open>nelderMead\<close>.  It first sorts \<^verbatim>\<open>simplex\<close> in place with a
  comparator that reads \<^verbatim>\<open>values[indices.indexOf(simplex.indexOf(a))]\<close> (the vertices
  are distinct objects, so \<^verbatim>\<open>simplex.indexOf\<close> is the position of the vertex before
  the sort), and then rebuilds both arrays from \<^verbatim>\<open>indices\<close>, reading the already
  reordered \<^verbatim>\<open>simplex\<close>.
\<close>

definition nmSortInPlace :: "nmState \<Rightarrow> nmState" where
  "nmSortInPlace st =
     (let S = simplex st; V = fvalues st;
          indices = sortedIndices V;
          S1 = map (\<lambda>k. S ! k) (sort_key (\<lambda>k. V ! indexOf indices k) [0..<length S])
      in st\<lparr>simplex := map (\<lambda>i. S1 ! i) indices,
            fvalues := map (\<lambda>i. V ! i) indices\<rparr>)"

text \<open>Centroid of the vertices \<open>0..n-1\<close> (all but the worst).\<close>

definition centroidOf :: "nat \<Rightarrow> real list list \<Rightarrow> real list" where
  "centroidOf n S = map (\<lambda>j. (\<Sum>i\<leftarrow>[0..<n]. S ! i ! j) / real n) [0..<n]"

text \<open>Shrink: the vertices \<open>1..n\<close> move half way to vertex 0, are clamped and evaluated.\<close>

definition nmShrink ::
  "(real list \<Rightarrow> real list) \<Rightarrow> (real list \<Rightarrow> real) \<Rightarrow> nat \<Rightarrow> nmState \<Rightarrow> nmState" where
  "nmShrink clampParams f n st =
     (let S = simplex st;
          shrunk = map (\<lambda>i. clampParams
                              (map (\<lambda>j. S ! 0 ! j + sigma * (S ! i ! j - S ! 0 ! j)) [0..<n]))
                       [1..<Suc n]
      in \<lparr>simplex = S ! 0 # shrunk,
          fvalues = fvalues st ! 0 # map f shrunk,
          calls = calls st @ shrunk\<rparr>)"

text \<open>
  One pass of the loop body after the convergence test: reflection, expansion,
  contraction, shrink.  \<^verbatim>\<open>values[n - 1]\<close> is \<^verbatim>\<open>undefined\<close> when \<open>n = 0\<close>, and a
  comparison with \<^verbatim>\<open>undefined\<close> is false.
\<close>

definition nmBody ::
  "(real list \<Rightarrow> real list) \<Rightarrow> (real list \<Rightarrow> real) \<Rightarrow> nat \<Rightarrow> nmState \<Rightarrow> nmState" where
  "nmBody clampParams f n st =
     (let S = simplex st; V = fvalues st;
          centroid = centroidOf n S;
          reflected = clampParams
             (map (\<lambda>j. centroid ! j + alpha * (centroid ! j - S ! n ! j)) [0..<n]);
          reflectedValue = f reflected;
          log1 = calls st @ [reflected]
      in if reflectedValue \<ge> V ! 0 \<and> 0 < n \<and> reflectedValue < V ! (n - 1) then
           \<lparr>simplex = S[n := reflected], fvalues = V[n := reflectedValue], calls = log1\<rparr>
         else if reflectedValue < V ! 0 then
           (let expanded = clampParams
                  (map (\<lambda>j. centroid ! j + gamma * (reflected ! j - centroid ! j)) [0..<n]);
                expandedValue = f expanded;
                log2 = log1 @ [expanded]
            in if expandedValue < reflectedValue then
                 \<lparr>simplex = S[n := expanded], fvalues = V[n := expandedValue], calls = log2\<rparr>
               else
                 \<lparr>simplex = S[n := reflected], fvalues = V[n := reflectedValue], calls = log2\<rparr>)
         else
           (let contracted = clampParams
                  (map (\<lambda>j. centroid ! j + rho * (S ! n ! j - centroid ! j)) [0..<n]);
                contractedValue = f contracted;
                log3 = log1 @ [contracted]
            in if contractedValue < V ! n then
                 \<lparr>simplex = S[n := contracted], fvalues = V[n := contractedValue], calls = log3\<rparr>
               else
                 nmShrink clampParams f n \<lparr>simplex = S, fvalues = V, calls = log3\<rparr>))"

text \<open>
  The \<^verbatim>\<open>for (iter = 0; iter < maxIterations; iter++)\<close> loop; the counter is the number of
  iterations left.  Each pass sorts, stops when the spread of the values is below the
  tolerance, and otherwise runs the body.
\<close>

fun nmLoop ::
  "(nmState \<Rightarrow> nmState) \<Rightarrow> (nmState \<Rightarrow> nmState) \<Rightarrow> real \<Rightarrow> nat \<Rightarrow> nat \<Rightarrow> nmState \<Rightarrow> nmState" where
  "nmLoop srt body tol n 0 st = st"
| "nmLoop srt body tol n (Suc k) st =
     (let st' = srt st in
      if fvalues st' ! n - fvalues st' ! 0 < tol then st'
      else nmLoop srt body tol n k (body st'))"

text \<open>
  \<^verbatim>\<open>Math.min(...values)\<close>; \<^verbatim>\<open>values\<close> always holds \<open>n + 1\<close> entries, so the empty
  case is never reached.
\<close>

fun listMin :: "real list \<Rightarrow> real" where
  "listMin (v # vs) = fold min vs v"
| "listMin [] = 0"

text \<open>\<^verbatim>\<open>bestIdx = values.indexOf(Math.min(...values))\<close>; the best vertex and its value.\<close>

definition nmBest :: "nmState \<Rightarrow> real list \<times> real" where
  "nmBest st =
     (let bestIdx = indexOf (fvalues st) (listMin (fvalues st))
      in (simplex st ! bestIdx, fvalues st ! bestIdx))"

text \<open>
  The options object.  \<^verbatim>\<open>options.x || d\<close> takes the default for \<^verbatim>\<open>undefined\<close> and
  for 0.
\<close>

record bound =
  min_b :: real
  max_b :: real

record nmOptions =
  maxIterations :: "nat option"
  tolerance :: "real option"
  initialStep :: "real option"
  paramConfigs :: "bound list option"

fun orNat :: "nat option \<Rightarrow> nat \<Rightarrow> nat" where
  "orNat None d = d"
| "orNat (Some v) d = (if v = 0 then d else v)"

fun orReal :: "real option \<Rightarrow> real \<Rightarrow> real" where
  "orReal None d = d"
| "orReal (Some v) d = (if v = 0 then d else v)"

subsection \<open>\<^verbatim>\<open>nelderMead\<close> (optimizer.js), three dimensions, bounds $[0,1]^3$\<close>

definition clampUnit :: "real list \<Rightarrow> real list" where
  "clampUnit v = map (\<lambda>x. clamp x 0 1) v"

text \<open>
  The first vertex is \<^verbatim>\<open>initial.slice()\<close>; vertex \<open>i + 1\<close> is a copy of
  \<^verbatim>\<open>initial\<close> whose coordinate \<open>i\<close> alone is replaced by
  \<^verbatim>\<open>clamp(vertex[i] + step, 0, 1)\<close>.  \<^verbatim>\<open>initial\<close> is a three-element array.
\<close>

definition nelderMeadRun :: "(real list \<Rightarrow> real) \<Rightarrow> real list \<Rightarrow> nmOptions \<Rightarrow> nmState" where
  "nelderMeadRun objective initial options =
     (let maxIt = orNat (maxIterations options) 200;
          tol = orReal (tolerance options) (1 / 10 ^ 6);
          n = 3;
          step = 1 / 10;
          simplex0 = initial # map (\<lambda>i. initial[i := clamp (initial ! i + step) 0 1]) [0..<n];
          st0 = \<lparr>simplex = simplex0, fvalues = map objective simplex0, calls = simplex0\<rparr>
      in nmLoop nmSortInPlace (nmBody clampUnit objective n) tol n maxIt st0)"

definition nelderMead :: "(real list \<Rightarrow> real) \<Rightarrow> real list \<Rightarrow> nmOptions \<Rightarrow> real list" where
  "nelderMead objective initial options = fst (nmBest (nelderMeadRun objective initial options))"

subsection \<open>\<^verbatim>\<open>nelderMeadMultiDim\<close> (multiStepOptimizer.js), per-dimension bounds\<close>

text \<open>\<^verbatim>\<open>paramConfigs[idx] || { min: 0, max: 1 }\<close>\<close>

definition configAt :: "bound list \<Rightarrow> nat \<Rightarrow> bound" where
  "configAt cfgs idx = (if idx < length cfgs then cfgs ! idx else \<lparr>min_b = 0, max_b = 1\<rparr>)"

definition clampParams :: "bound list \<Rightarrow> real list \<Rightarrow> real list" where
  "clampParams cfgs v =
     map (\<lambda>idx. clamp (v ! idx) (min_b (configAt cfgs idx)) (max_b (configAt cfgs idx)))
         [0..<length v]"

definition nelderMeadMultiDimRun ::
  "(real list \<Rightarrow> real) \<Rightarrow> real list \<Rightarrow> nmOptions \<Rightarrow> nmState" where
  "nelderMeadMultiDimRun objective initial options =
     (let maxIt = orNat (maxIterations options) 500;
          tol = orReal (tolerance options) (1 / 10 ^ 8);
          cfgs = (case paramConfigs options of None \<Rightarrow> [] | Some c \<Rightarrow> c);
          n = length initial;
          step = orReal (initialStep options) (2 / 10);
          simplex0 = clampParams cfgs initial
                     # map (\<lambda>i. clampParams cfgs (initial[i := initial ! i + step])) [0..<n];
          st0 = \<lparr>simplex = simplex0, fvalues = map objective simplex0, calls = simplex0\<rparr>
      in nmLoop nmSort (nmBody (clampParams cfgs) objective n) tol n maxIt st0)"

definition nelderMeadMultiDim ::
  "(real list \<Rightarrow> real) \<Rightarrow> real list \<Rightarrow> nmOptions \<Rightarrow> real list \<times> real" where
  "nelderMeadMultiDim objective initial options =
     nmBest (nelderMeadMultiDimRun objective initial options)"

subsection \<open>\<^verbatim>\<open>nelderMead5D\<close> (levels tool)\<close>

text \<open>
  \<^verbatim>\<open>clampParams\<close> of the levels tool: input black first, then input white at least two
  above it.
\<close>

definition clampLevels :: "real list \<Rightarrow> real list" where
  "clampLevels p =
     (let ib = max 0 (min 253 (p ! 0));
          iw = max (ib + 2) (min 255 (p ! 1));
          gam = max (1 / 10) (min (999 / 100) (p ! 2));
          ob = max 0 (min 255 (p ! 3));
          ow = max 0 (min 255 (p ! 4))
      in [ib, iw, gam, ob, ow])"

definition nelderMead5DRun :: "(real list \<Rightarrow> real) \<Rightarrow> real list \<Rightarrow> nmOptions \<Rightarrow> nmState" where
  "nelderMead5DRun fn initial options =
     (let maxIt = orNat (maxIterations options) 800;
          tol = orReal (tolerance options) (1 / 10 ^ 6);
          n = 5;
          steps = [10, -10, 2 / 10, 10, -10];
          simplex0 = clampLevels initial
                     # map (\<lambda>i. clampLevels (initial[i := initial ! i + steps ! i])) [0..<n];
          st0 = \<lparr>simplex = simplex0, fvalues = map fn simplex0, calls = simplex0\<rparr>
      in nmLoop nmSort (nmBody clampLevels fn n) tol n maxIt st0)"

definition nelderMead5D :: "(real list \<Rightarrow> real) \<Rightarrow> real list \<Rightarrow> nmOptions \<Rightarrow> real list \<times> real" where
  "nelderMead5D fn initial options = nmBest (nelderMead5DRun fn initial options)"

subsection \<open>\<^verbatim>\<open>nelderMead3D\<close> (hslTool.js)\<close>

definition clampHsl :: "real list \<Rightarrow> real list" where
  "clampHsl p =
     [max (- 180) (min 180 (p ! 0)), max (- 100) (min 100 (p ! 1)), max (- 100) (min 100 (p ! 2))]"

definition nelderMead3DRun :: "(real list \<Rightarrow> real) \<Rightarrow> real list \<Rightarrow> nmOptions \<Rightarrow> nmState" where
  "nelderMead3DRun fn initial options =
     (let maxIt = orNat (maxIterations options) 500;
          tol = orReal (tolerance options) (1 / 10 ^ 8);
          n = 3;
          steps = [30, 20, 20];
          simplex0 = initial # map (\<lambda>i. clampHsl (initial[i := initial ! i + steps ! i])) [0..<n];
          st0 = \<lparr>simplex = simplex0, fvalues = map fn simplex0, calls = simplex0\<rparr>
      in nmLoop nmSort (nmBody clampHsl fn n) tol n maxIt st0)"

definition nelderMead3D :: "(real list \<Rightarrow> real) \<Rightarrow> real list \<Rightarrow> nmOptions \<Rightarrow> real list \<times> real" where
  "nelderMead3D fn initial options = nmBest (nelderMead3DRun fn initial options)"

section \<open>Single-blend optimizer (optimizer.js)\<close>

text \<open>
  The channel loop of \<^verbatim>\<open>computeInitialGuess\<close>: each channel is inverted; a
  \<^verbatim>\<open>null\<close> or non-finite inverse leaves the loop with \<^verbatim>\<open>valid = false\<close>
  (\<open>None\<close>); a finite one is stored clamped to the unit interval.
\<close>

definition invertPair :: "(real \<Rightarrow> real \<Rightarrow> jsnum) \<Rightarrow> real list \<Rightarrow> real list \<Rightarrow> real list option" where
  "invertPair invf sNorm tNorm =
     foldl (\<lambda>acc i.
              case acc of
                None \<Rightarrow> None
              | Some blendNorm \<Rightarrow>
                  (case invf (sNorm ! i) (tNorm ! i) of
                     Finite b \<Rightarrow> Some (blendNorm[i := clamp b 0 1])
                   | _ \<Rightarrow> None))
           (Some [0, 0, 0]) [0, 1, 2]"

record inverseItem =
  norm_v :: "real list"
  item_weight :: real

text \<open>The pair loop: the accumulator is (\<^verbatim>\<open>validInverses\<close>, \<^verbatim>\<open>totalWeight\<close>).\<close>

definition guessStep :: "blendMode \<Rightarrow> inverseItem list \<times> real \<Rightarrow> pair \<Rightarrow> inverseItem list \<times> real" where
  "guessStep mode acc p =
     (case (parseColor (source p), parseColor (target p)) of
        (Some sRgb, Some tRgb) \<Rightarrow>
          (case invertPair (inverse_m mode) (map (\<lambda>c. real_of_int c / 255) sRgb)
                           (map (\<lambda>c. real_of_int c / 255) tRgb) of
             Some blendNorm \<Rightarrow>
               (fst acc @ [\<lparr>norm_v = blendNorm, item_weight = weightOf p\<rparr>], snd acc + weightOf p)
           | None \<Rightarrow> acc)
      | _ \<Rightarrow> acc)"

definition computeInitialGuess :: "blendMode \<Rightarrow> pair list \<Rightarrow> real list" where
  "computeInitialGuess mode pairs =
     (case foldl (guessStep mode) ([], 0) pairs of
        (validInverses, totalWeight) \<Rightarrow>
          if length validInverses > 0 then
            (if totalWeight \<le> 0 then
               (let avg = foldl (\<lambda>a item. [a ! 0 + norm_v item ! 0, a ! 1 + norm_v item ! 1,
                                              a ! 2 + norm_v item ! 2])
                                [0, 0, 0] validInverses
                in [avg ! 0 / real (length validInverses),
                    avg ! 1 / real (length validInverses),
                    avg ! 2 / real (length validInverses)])
             else
               (let avg = foldl (\<lambda>a item. [a ! 0 + norm_v item ! 0 * item_weight item,
                                              a ! 1 + norm_v item ! 1 * item_weight item,
                                              a ! 2 + norm_v item ! 2 * item_weight item])
                                [0, 0, 0] validInverses
                in [avg ! 0 / totalWeight, avg ! 1 / totalWeight, avg ! 2 / totalWeight]))
          else [1 / 2, 1 / 2, 1 / 2])"

text \<open>The quality badge from the weighted average \<open>\<Delta>E\<close>.\<close>

definition qualityOf :: "real \<Rightarrow> string" where
  "qualityOf avg =
     (if avg < 1 then ''exact'' else if avg < 3 then ''good''
      else if avg < 6 then ''approx'' else ''poor'')"

record blendResult = errorStats +
  blend :: "real list"
  blendHex :: string
  blendRgb :: "int list"
  quality :: string

text \<open>\<^verbatim>\<open>optimizeBlend\<close>; \<^verbatim>\<open>null\<close> is \<open>None\<close>.\<close>

definition optimizeBlend ::
  "(int list \<Rightarrow> int list \<Rightarrow> real) \<Rightarrow> blendMode \<Rightarrow> pair list \<Rightarrow> blendResult option" where
  "optimizeBlend dE mode pairs =
     (let vp = validPairs pairs in
      if length vp = 0 then None
      else
        (let initialGuess = computeInitialGuess mode vp;
             objective = (\<lambda>blendNorm. totalError (computeBlendError dE (name mode) vp blendNorm));
             optimizedBlend = nelderMead objective initialGuess
                \<lparr>maxIterations = Some 300, tolerance = Some (1 / 10 ^ 7),
                 initialStep = None, paramConfigs = None\<rparr>;
             finalResult = computeBlendError dE (name mode) vp optimizedBlend;
             rgb = map (\<lambda>c. mathRound (c * 255)) optimizedBlend
         in Some \<lparr>totalError = totalError finalResult,
                  avgError = avgError finalResult,
                  maxError = maxError finalResult,
                  perPairResults = perPairResults finalResult,
                  blend = optimizedBlend,
                  blendHex = rgbToHex (real_of_int (rgb ! 0)) (real_of_int (rgb ! 1))
                                      (real_of_int (rgb ! 2)),
                  blendRgb = rgb,
                  quality = qualityOf (avgError finalResult)\<rparr>))"

section \<open>Levels and HSL optimizers\<close>

text \<open>
  A JavaScript exception is a value of \<open>exn\<close>; a function that can throw returns
  \<open>exn + 'a\<close>.
\<close>

datatype exn = TypeError

text \<open>
  \<^verbatim>\<open>if (result.value < bestValue)\<close> with \<^verbatim>\<open>bestValue\<close> starting at
  \<^verbatim>\<open>Infinity\<close> (\<open>None\<close>): the accumulator is (\<^verbatim>\<open>bestResult\<close>, \<^verbatim>\<open>bestValue\<close>).
\<close>

fun belowBest :: "real \<Rightarrow> real option \<Rightarrow> bool" where
  "belowBest v None = True"
| "belowBest v (Some b) = (v < b)"

definition keepBest ::
  "real list option \<times> real option \<Rightarrow> real list \<times> real \<Rightarrow> real list option \<times> real option" where
  "keepBest acc result =
     (if belowBest (snd result) (snd acc) then (Some (fst result), Some (snd result)) else acc)"

record levelsParams =
  inputBlack :: real
  inputWhite :: real
  inputGamma :: real
  outputBlack :: real
  outputWhite :: real

record levelsResult = errorStats +
  params :: levelsParams
  levelsQuality :: string

text \<open>
  \<^verbatim>\<open>computeLevelsError\<close>; \<^verbatim>\<open>applyLevelsAdjustment\<close> is defined outside the
  files at hand and is a parameter.
\<close>

definition computeLevelsError ::
  "(int list \<Rightarrow> int list \<Rightarrow> real) \<Rightarrow> (int list \<Rightarrow> levelsParams \<Rightarrow> int list) \<Rightarrow>
   pair list \<Rightarrow> levelsParams \<Rightarrow> errorStats" where
  "computeLevelsError dE applyLevelsAdjustment pairs ps =
     computeError dE (\<lambda>sRgb. applyLevelsAdjustment sRgb ps) pairs"

definition levelsStartingPoints :: "real list list" where
  "levelsStartingPoints =
     [[0, 255, 1, 0, 255], [10, 245, 1, 0, 255], [0, 255, 8 / 10, 0, 255],
      [0, 255, 12 / 10, 0, 255], [0, 255, 1, 10, 245], [20, 235, 1, 0, 255],
      [0, 255, 1, 0, 200], [0, 255, 1, 50, 255]]"

text \<open>The restart loop of \<^verbatim>\<open>optimizeLevels\<close>: the best solution over the starting points.\<close>

definition levelsSearch :: "(real list \<Rightarrow> real) \<Rightarrow> real list option" where
  "levelsSearch objective =
     fst (foldl (\<lambda>acc start.
                   keepBest acc (nelderMead5D objective start
                      \<lparr>maxIterations = Some 500, tolerance = None,
                       initialStep = None, paramConfigs = None\<rparr>))
                (None, None) levelsStartingPoints)"

text \<open>
  \<^verbatim>\<open>optimizeLevels\<close>: \<^verbatim>\<open>null\<close> without a complete pair; reading
  \<^verbatim>\<open>p[0]\<close> of a \<^verbatim>\<open>null\<close> best result would throw.
\<close>

definition optimizeLevels ::
  "(int list \<Rightarrow> int list \<Rightarrow> real) \<Rightarrow> (int list \<Rightarrow> levelsParams \<Rightarrow> int list) \<Rightarrow>
   pair list \<Rightarrow> exn + levelsResult option" where
  "optimizeLevels dE applyLevelsAdjustment pairs =
     (let vp = validPairs pairs in
      if length vp = 0 then Inr None
      else
        (let objective = (\<lambda>p. totalError (computeLevelsError dE applyLevelsAdjustment vp
                                 \<lparr>inputBlack = p ! 0, inputWhite = p ! 1, inputGamma = p ! 2,
                                  outputBlack = p ! 3, outputWhite = p ! 4\<rparr>))
         in case levelsSearch objective of
              None \<Rightarrow> Inl TypeError
            | Some p \<Rightarrow>
                (let finalParams =
                       \<lparr>inputBlack = real_of_int (mathRound (p ! 0)),
                        inputWhite = real_of_int (mathRound (p ! 1)),
                        inputGamma = real_of_int (mathRound (p ! 2 * 100)) / 100,
                        outputBlack = real_of_int (mathRound (p ! 3)),
                        outputWhite = real_of_int (mathRound (p ! 4))\<rparr>;
                     finalStats = computeLevelsError dE applyLevelsAdjustment vp finalParams
                 in Inr (Some \<lparr>totalError = totalError finalStats,
                               avgError = avgError finalStats,
                               maxError = maxError finalStats,
                               perPairResults = perPairResults finalStats,
                               params = finalParams,
                               levelsQuality = qualityOf (avgError finalStats)\<rparr>))))"

record hslResult = errorStats +
  hue :: real
  saturation :: real
  lightness :: real
  hslQuality :: string

text \<open>
  \<^verbatim>\<open>computeHslError\<close>; the color transform \<^verbatim>\<open>applyHslAdjustment\<close> is a parameter,
  so what follows holds for every such transform.
\<close>

definition computeHslError ::
  "(int list \<Rightarrow> int list \<Rightarrow> real) \<Rightarrow> (int list \<Rightarrow> real \<Rightarrow> real \<Rightarrow> real \<Rightarrow> int list) \<Rightarrow>
   pair list \<Rightarrow> real \<Rightarrow> real \<Rightarrow> real \<Rightarrow> errorStats" where
  "computeHslError dE applyHslAdjustment pairs hueShift satAdj lightAdj =
     computeError dE (\<lambda>sRgb. applyHslAdjustment sRgb hueShift satAdj lightAdj) pairs"

definition hslStartingPoints :: "real list list" where
  "hslStartingPoints =
     [[0, 0, 0], [0, - 50, 0], [0, 50, 0], [0, 0, - 30], [0, 0, 30],
      [60, 0, 0], [- 60, 0, 0], [120, 0, 0], [- 120, 0, 0]]"

definition hslSearch :: "(real list \<Rightarrow> real) \<Rightarrow> real list option" where
  "hslSearch objective =
     fst (foldl (\<lambda>acc start.
                   keepBest acc (nelderMead3D objective start
                      \<lparr>maxIterations = Some 300, tolerance = Some (1 / 10 ^ 7),
                       initialStep = None, paramConfigs = None\<rparr>))
                (None, None) hslStartingPoints)"

definition optimizeHsl ::
  "(int list \<Rightarrow> int list \<Rightarrow> real) \<Rightarrow> (int list \<Rightarrow> real \<Rightarrow> real \<Rightarrow> real \<Rightarrow> int list) \<Rightarrow>
   pair list \<Rightarrow> exn + hslResult option" where
  "optimizeHsl dE applyHslAdjustment pairs =
     (let vp = validPairs pairs in
      if length vp = 0 then Inr None
      else
        (let objective = (\<lambda>ps. totalError (computeHslError dE applyHslAdjustment vp
                                   (ps ! 0) (ps ! 1) (ps ! 2)))
         in case hslSearch objective of
              None \<Rightarrow> Inl TypeError
            | Some best \<Rightarrow>
                (let h = real_of_int (mathRound (best ! 0 * 10)) / 10;
                     sat = real_of_int (mathRound (best ! 1 * 10)) / 10;
                     light = real_of_int (mathRound (best ! 2 * 10)) / 10;
                     finalResult = computeHslError dE applyHslAdjustment vp h sat light
                 in Inr (Some \<lparr>totalError = totalError finalResult,
                               avgError = avgError finalResult,
                               maxError = maxError finalResult,
                               perPairResults = perPairResults finalResult,
                               hue = h, saturation = sat, lightness = light,
                               hslQuality = qualityOf (avgError finalResult)\<rparr>))))"

section \<open>Joint refinement with basin hopping (multiStepOptimizer.js)\<close>

definition HSL_MODE_NAME :: string where
  "HSL_MODE_NAME = ''Hue/Saturation''"

definition LEVELS_MODE_NAME :: string where
  "LEVELS_MODE_NAME = ''Levels''"

definition getModeParamCount :: "string \<Rightarrow> nat" where
  "getModeParamCount modeName = (if modeName = LEVELS_MODE_NAME then 5 else 3)"

record stepConfig =
  paramCount :: nat
  startIndex :: nat

text \<open>
  Step 1 of \<^verbatim>\<open>jointOptimizeModeSequenceEnhanced\<close>: the accumulator is
  (\<^verbatim>\<open>stepConfigs\<close>, \<^verbatim>\<open>paramConfigs\<close>, \<^verbatim>\<open>currentIdx\<close>).
\<close>

definition configStep ::
  "real \<Rightarrow> real \<Rightarrow> stepConfig list \<times> bound list \<times> nat \<Rightarrow> string \<Rightarrow> stepConfig list \<times> bound list \<times> nat" where
  "configStep minOpacity maxOpacity acc mode =
     (case acc of (stepConfigs, cfgs, currentIdx) \<Rightarrow>
        (let pc = getModeParamCount mode
         in (stepConfigs @ [\<lparr>paramCount = pc, startIndex = currentIdx\<rparr>],
             cfgs @ replicate pc \<lparr>min_b = 0, max_b = 1\<rparr> @ [\<lparr>min_b = minOpacity, max_b = maxOpacity\<rparr>],
             currentIdx + pc + 1)))"

definition buildConfigs :: "real \<Rightarrow> real \<Rightarrow> string list \<Rightarrow> stepConfig list \<times> bound list \<times> nat" where
  "buildConfigs minOpacity maxOpacity modeSequence =
     foldl (configStep minOpacity maxOpacity) ([], [], 0) modeSequence"

text \<open>
  \<^verbatim>\<open>Math.random()\<close> is a supply \<open>rnd\<close> of numbers read at a running position; each
  function returns the position after its draws.
\<close>

definition perturbSolution ::
  "(nat \<Rightarrow> real) \<Rightarrow> nat \<Rightarrow> real list \<Rightarrow> real \<Rightarrow> bound list \<Rightarrow> real list \<times> nat" where
  "perturbSolution rnd k solution strength cfgs =
     (map (\<lambda>idx. clamp (solution ! idx + (rnd (k + idx) - 1 / 2) * 2 * strength)
                        (min_b (configAt cfgs idx)) (max_b (configAt cfgs idx)))
          [0..<length solution],
      k + length solution)"

definition randomSolution :: "(nat \<Rightarrow> real) \<Rightarrow> nat \<Rightarrow> nat \<Rightarrow> bound list \<Rightarrow> real list \<times> nat" where
  "randomSolution rnd k dims cfgs =
     (map (\<lambda>idx. min_b (configAt cfgs idx)
                  + rnd (k + idx) * (max_b (configAt cfgs idx) - min_b (configAt cfgs idx)))
          [0..<dims],
      k + dims)"

text \<open>The starting point of a restart: the greedy guess, the neutral guess, or a random one.\<close>

definition restartInitial ::
  "(nat \<Rightarrow> real) \<Rightarrow> nat \<Rightarrow> nat \<Rightarrow> string list \<Rightarrow> real list list option \<Rightarrow> stepConfig list \<Rightarrow>
   nat \<Rightarrow> bound list \<Rightarrow> real \<Rightarrow> real list \<times> nat" where
  "restartInitial rnd k restart modeSequence initialBlends stepConfigs totalDims cfgs maxOpacity =
     (case (if restart = 0 then initialBlends else None) of
        Some blends \<Rightarrow>
          if length blends = length modeSequence then
            (concat (map (\<lambda>i. blends ! i @ [maxOpacity]) [0..<length modeSequence]), k)
          else if restart = 1 then
            (concat (map (\<lambda>i. replicate (paramCount (stepConfigs ! i)) (1 / 2) @ [maxOpacity])
                         [0..<length modeSequence]), k)
          else randomSolution rnd k totalDims cfgs
      | None \<Rightarrow>
          if restart = 1 then
            (concat (map (\<lambda>i. replicate (paramCount (stepConfigs ! i)) (1 / 2) @ [maxOpacity])
                         [0..<length modeSequence]), k)
          else randomSolution rnd k totalDims cfgs)"

text \<open>
  One pass of the basin-hopping loop: the accumulator is (\<^verbatim>\<open>solution\<close>,
  \<^verbatim>\<open>value\<close>, position in the random supply).
\<close>

definition basinHop ::
  "(real list \<Rightarrow> real) \<Rightarrow> bound list \<Rightarrow> (nat \<Rightarrow> real) \<Rightarrow> real list \<times> real \<times> nat \<Rightarrow> nat \<Rightarrow>
   real list \<times> real \<times> nat" where
  "basinHop objective cfgs rnd acc hop =
     (case acc of (solution, value, k) \<Rightarrow>
        (case perturbSolution rnd k solution (2 / 10 + real hop * (1 / 10)) cfgs of
           (perturbed, k') \<Rightarrow>
             (let hopResult = nelderMeadMultiDim objective perturbed
                    \<lparr>maxIterations = Some 300, tolerance = Some (1 / 10 ^ 7),
                     initialStep = Some (15 / 100), paramConfigs = Some cfgs\<rparr>
              in if snd hopResult < value then (fst hopResult, snd hopResult, k')
                 else (solution, value, k'))))"

definition basinHopping ::
  "(real list \<Rightarrow> real) \<Rightarrow> bound list \<Rightarrow> (nat \<Rightarrow> real) \<Rightarrow> nat \<Rightarrow> real list \<times> real \<times> nat \<Rightarrow>
   real list \<times> real \<times> nat" where
  "basinHopping objective cfgs rnd basinHops start =
     foldl (basinHop objective cfgs rnd) start [0..<basinHops]"

text \<open>
  One restart: Nelder-Mead from the starting point, then the hops; the accumulator is
  (\<^verbatim>\<open>globalBest\<close>, \<^verbatim>\<open>globalBestValue\<close>, position in the random supply), with \<open>None\<close>
  for \<^verbatim>\<open>null\<close> and for \<^verbatim>\<open>Infinity\<close>.
\<close>

definition restartStep ::
  "(real list \<Rightarrow> real) \<Rightarrow> (nat \<Rightarrow> real) \<Rightarrow> string list \<Rightarrow> real list list option \<Rightarrow>
   stepConfig list \<Rightarrow> nat \<Rightarrow> bound list \<Rightarrow> real \<Rightarrow> nat \<Rightarrow>
   real list option \<times> real option \<times> nat \<Rightarrow> nat \<Rightarrow> real list option \<times> real option \<times> nat" where
  "restartStep objective rnd modeSequence initialBlends stepConfigs totalDims cfgs maxOpacity
               basinHops acc restart =
     (case acc of (globalBest, globalBestValue, k) \<Rightarrow>
        (case restartInitial rnd k restart modeSequence initialBlends stepConfigs totalDims cfgs
                maxOpacity of
           (initial, k1) \<Rightarrow>
             (case nelderMeadMultiDim objective initial
                     \<lparr>maxIterations = Some 400, tolerance = Some (1 / 10 ^ 8),
                      initialStep = Some (25 / 100), paramConfigs = Some cfgs\<rparr> of
                (solution, value) \<Rightarrow>
                  (case basinHopping objective cfgs rnd basinHops (solution, value, k1) of
                     (solution', value', k2) \<Rightarrow>
                       if belowBest value' globalBestValue then (Some solution', Some value', k2)
                       else (globalBest, globalBestValue, k2)))))"

text \<open>
  Steps 1 to 3 of \<^verbatim>\<open>jointOptimizeModeSequenceEnhanced\<close>: \<^verbatim>\<open>null\<close> (\<open>None\<close>)
  without a complete pair, otherwise the best flattened parameter vector over all restarts
  and hops, with its value.  The objective closure (the total error of the unflattened
  steps) is the parameter \<open>objective\<close>.
\<close>

definition jointSearch ::
  "(real list \<Rightarrow> real) \<Rightarrow> (nat \<Rightarrow> real) \<Rightarrow> pair list \<Rightarrow> string list \<Rightarrow> real list list option \<Rightarrow>
   nat \<Rightarrow> nat \<Rightarrow> real \<Rightarrow> real \<Rightarrow> (real list option \<times> real option \<times> nat) option" where
  "jointSearch objective rnd pairs modeSequence initialBlends numRestarts basinHops
               minOpacity maxOpacity =
     (if length (validPairs pairs) = 0 then None
      else
        (case buildConfigs minOpacity maxOpacity modeSequence of
           (stepConfigs, cfgs, totalDims) \<Rightarrow>
             Some (foldl (restartStep objective rnd modeSequence initialBlends stepConfigs
                            totalDims cfgs maxOpacity basinHops)
                         (None, None, 0) [0..<numRestarts])))"

section \<open>The cancellable multi-step search (\<^verbatim>\<open>MultiStepOptimizerAsync\<close>)\<close>

record levelsValues =
  lv_inputBlack :: int
  lv_inputWhite :: int
  lv_inputGamma :: real
  lv_outputBlack :: int
  lv_outputWhite :: int

text \<open>A step of a result as step 4 of the joint optimizer builds it.\<close>

record step =
  modeName :: string
  blend_s :: "real list"
  opacity :: real
  hslValues :: "(int \<times> int \<times> int) option"
  levelsValues :: "levelsValues option"
  blendHex_s :: string
  stepError :: real

text \<open>\<^verbatim>\<open>{ steps, modeSequence, ...result }\<close>\<close>

record jointResult = errorStats +
  steps :: "step list"
  modeSequence :: "string list"

text \<open>
  \<^verbatim>\<open>{ ...result, singleBestMode, singleBestError, improvement }\<close>;
  \<^verbatim>\<open>singleBestError\<close> starts at \<^verbatim>\<open>Infinity\<close> (\<open>None\<close>), and then
  \<^verbatim>\<open>improvement\<close> is \<^verbatim>\<open>NaN\<close> (\<open>None\<close>).
\<close>

record metaResult = jointResult +
  singleBestMode :: "string option"
  singleBestError :: "real option"
  improvement :: "real option"

text \<open>
  \<^verbatim>\<open>getKey\<close> prints one signature per step and joins them with a bar; keys are only
  compared for equality, so the key is kept as the list of signatures:
  \<^verbatim>\<open>HSL:h,s,l\<close>, \<^verbatim>\<open>LVL:inputGamma\<close>, or \<^verbatim>\<open>modeName:blendHex\<close>.
\<close>

datatype stepSig = SigHSL int int int | SigLVL real | SigBlend string string

definition stepKey :: "step \<Rightarrow> stepSig" where
  "stepKey s =
     (case hslValues s of
        Some (h, sa, l) \<Rightarrow> SigHSL h sa l
      | None \<Rightarrow>
          (case levelsValues s of
             Some lv \<Rightarrow> SigLVL (lv_inputGamma lv)
           | None \<Rightarrow> SigBlend (modeName s) (blendHex_s s)))"

definition getKey :: "'a jointResult_scheme \<Rightarrow> stepSig list" where
  "getKey res = map stepKey (steps res)"

text \<open>\<^verbatim>\<open>Array.prototype.findIndex\<close>; \<open>None\<close> is \<open>-1\<close>.\<close>

fun findIndex :: "('a \<Rightarrow> bool) \<Rightarrow> 'a list \<Rightarrow> nat option" where
  "findIndex P [] = None"
| "findIndex P (x # xs) = (if P x then Some 0 else map_option Suc (findIndex P xs))"

text \<open>
  \<^verbatim>\<open>updateTopSolutions\<close>, as a function from the stored list and the new result to
  the new stored list.
\<close>

definition updateTopSolutions :: "metaResult list \<Rightarrow> metaResult \<Rightarrow> metaResult list" where
  "updateTopSolutions topSols newResult =
     (let MAX_top = 6;
          seqKey = getKey newResult;
          all = (case findIndex (\<lambda>s. getKey s = seqKey) topSols of
                   Some idx \<Rightarrow>
                     if avgError newResult < avgError (topSols ! idx)
                     then topSols[idx := newResult] else topSols
                 | None \<Rightarrow> topSols @ [newResult])
      in take MAX_top (sort_key avgError all))"

text \<open>
  The optimizer object.  \<open>tick\<close> is a ghost counter of the points where other code can
  run (a callback is called, or the search sleeps); \<open>found\<close> is the ghost list of the
  results the search has produced so far.
\<close>

record optimizerState =
  cancelled :: bool
  bestResult :: "metaResult option"
  topSolutions :: "metaResult list"
  tick :: nat
  found :: "metaResult list"

text \<open>
  At such a point the environment may call \<^verbatim>\<open>cancel()\<close>, which sets the flag;
  \<open>env i\<close> tells whether it does so at point \<open>i\<close>.  Nothing but the start of
  \<^verbatim>\<open>optimize\<close> clears the flag.
\<close>

definition interact :: "(nat \<Rightarrow> bool) \<Rightarrow> optimizerState \<Rightarrow> optimizerState" where
  "interact env st = st\<lparr>cancelled := cancelled st \<or> env (tick st), tick := Suc (tick st)\<rparr>"

text \<open>What \<^verbatim>\<open>optimize\<close> resolves to: \<^verbatim>\<open>null\<close>, one result, or the list of top solutions.\<close>

datatype returned = RNull | ROne metaResult | RMany "metaResult list"

fun returnBest :: "metaResult option \<Rightarrow> returned" where
  "returnBest None = RNull"
| "returnBest (Some r) = ROne r"

record candidate =
  cand_modeSequence :: "string list"
  initialBlends :: "real list list option"

record searchOptions =
  existingBest :: "metaResult option"
  minOpacityPct :: "real option"
  maxOpacityPct :: "real option"
  allowHsl :: bool
  allowLevels :: bool
  extensive :: bool

text \<open>
  Phase 0: the best single-mode error over the catalog, with a cancellation check before
  each mode.  The accumulator is (\<^verbatim>\<open>singleBestMode\<close>, \<^verbatim>\<open>singleBestError\<close>);
  \<open>Inl\<close> is the early \<^verbatim>\<open>return this.bestResult\<close>.
\<close>

fun singlePhase ::
  "(int list \<Rightarrow> int list \<Rightarrow> real) \<Rightarrow> pair list \<Rightarrow> blendMode list \<Rightarrow> optimizerState \<Rightarrow>
   string option \<times> real option \<Rightarrow> returned + string option \<times> real option" where
  "singlePhase dE vp [] st best = Inr best"
| "singlePhase dE vp (mode # modes) st best =
     (if cancelled st then Inl (returnBest (bestResult st))
      else singlePhase dE vp modes st
             (case optimizeBlend dE mode vp of
                Some result \<Rightarrow>
                  if belowBest (avgError result) (snd best)
                  then (Some (name mode), Some (avgError result)) else best
              | None \<Rightarrow> best))"

text \<open>The duplicate filter over candidates, keyed by the mode sequence.\<close>

definition dedupe :: "candidate list \<Rightarrow> candidate list" where
  "dedupe cs =
     fst (foldl (\<lambda>acc c. if cand_modeSequence c \<in> set (snd acc) then acc
                          else (fst acc @ [c], snd acc @ [cand_modeSequence c]))
                ([], []) cs)"

text \<open>
  \<^verbatim>\<open>improvement\<close> and the meta result built from a joint result.
\<close>

definition improvementOf :: "real option \<Rightarrow> real \<Rightarrow> real option" where
  "improvementOf sbe avg =
     (case sbe of
        None \<Rightarrow> None
      | Some e \<Rightarrow> Some (max 0 (if e > 0 then ((e - avg) / e) * 100 else 0)))"

definition mkMeta :: "jointResult \<Rightarrow> string option \<Rightarrow> real option \<Rightarrow> metaResult" where
  "mkMeta r sbm sbe =
     jointResult.extend r
       \<lparr>singleBestMode = sbm, singleBestError = sbe,
        improvement = improvementOf sbe (avgError r)\<rparr>"

text \<open>
  The body of the \<^verbatim>\<open>try\<close> block once the joint optimizer has answered: a thrown
  exception is caught and logged, \<^verbatim>\<open>null\<close> is skipped, a result updates the top
  solutions and the best result and is reported through \<^verbatim>\<open>onBestFound\<close>.
\<close>

definition absorb ::
  "(nat \<Rightarrow> bool) \<Rightarrow> string option \<Rightarrow> real option \<Rightarrow> exn + jointResult option \<Rightarrow>
   optimizerState \<Rightarrow> optimizerState" where
  "absorb env sbm sbe answer st =
     (case answer of
        Inl e \<Rightarrow> st
      | Inr None \<Rightarrow> st
      | Inr (Some result) \<Rightarrow>
          (let metaRes = mkMeta result sbm sbe;
               st1 = st\<lparr>topSolutions := updateTopSolutions (topSolutions st) metaRes,
                        found := found st @ [metaRes]\<rparr>;
               st2 = (case bestResult st1 of
                        None \<Rightarrow> st1\<lparr>bestResult := Some metaRes\<rparr>
                      | Some b \<Rightarrow>
                          if avgError metaRes < avgError b
                          then st1\<lparr>bestResult := Some metaRes\<rparr> else st1)
           in interact env st2))"

text \<open>
  One pass of the phase-3 loop after its cancellation check.  The joint optimizer
  \<^verbatim>\<open>jointOptimizeModeSequenceEnhanced\<close> draws random numbers, so its answer is a
  parameter \<open>joint\<close> of the number of the evaluation, the candidate and the number of
  restarts.  The points where other code can run are the \<^verbatim>\<open>onProgress\<close> call,
  the \<^verbatim>\<open>onBestFound\<close> call and the sleep after every third evaluation.
\<close>

definition evaluateCandidate ::
  "(nat \<Rightarrow> bool) \<Rightarrow> (nat \<Rightarrow> candidate \<Rightarrow> nat \<Rightarrow> exn + jointResult option) \<Rightarrow> nat \<Rightarrow>
   string option \<Rightarrow> real option \<Rightarrow> candidate \<Rightarrow> nat \<Rightarrow> optimizerState \<Rightarrow> optimizerState" where
  "evaluateCandidate env joint numRestartsBase sbm sbe c evaluated' st =
     (let st1 = interact env st;
          answer = joint evaluated' c
                     (case initialBlends c of Some b \<Rightarrow> numRestartsBase
                      | None \<Rightarrow> numRestartsBase + 2);
          st2 = absorb env sbm sbe answer st1
      in if evaluated' mod 3 = 0 then interact env st2 else st2)"

text \<open>
  Phase 3: the loop over the candidates, with the cancellation check at the head of each
  pass; after the last candidate \<^verbatim>\<open>onProgress\<close> reports the end and the top
  solutions are returned.
\<close>

fun optimizingPhase ::
  "(nat \<Rightarrow> bool) \<Rightarrow> (nat \<Rightarrow> candidate \<Rightarrow> nat \<Rightarrow> exn + jointResult option) \<Rightarrow> nat \<Rightarrow>
   string option \<Rightarrow> real option \<Rightarrow> candidate list \<Rightarrow> nat \<Rightarrow> optimizerState \<Rightarrow>
   returned \<times> optimizerState" where
  "optimizingPhase env joint numRestartsBase sbm sbe [] evaluated st =
     (let st1 = interact env st in (RMany (topSolutions st1), st1))"
| "optimizingPhase env joint numRestartsBase sbm sbe (c # cs) evaluated st =
     (if cancelled st then (returnBest (bestResult st), st)
      else optimizingPhase env joint numRestartsBase sbm sbe cs (evaluated + 1)
             (evaluateCandidate env joint numRestartsBase sbm sbe c (evaluated + 1) st))"

text \<open>
  How the promise of \<^verbatim>\<open>optimize\<close> ends: it resolves with a value, it rejects with
  an exception, or it never settles.
\<close>

datatype 'a promise = Resolved 'a | Rejected exn | Pending

text \<open>
  \<^verbatim>\<open>greedySearchSequences\<close>.  It filters the pairs again and returns the empty list
  when none is complete.  Every trial starts by reading
  \<^verbatim>\<open>hexToRgb(p.source).map(c => c / 255)\<close> for each complete pair, which throws a
  \<^verbatim>\<open>TypeError\<close> when a source is not a hex color; with no trial the list of
  candidates stays empty.  What the trials find depends on \<^verbatim>\<open>Math.random\<close> and is
  the parameter \<open>trials\<close> (\<open>Inl\<close> when a later statement of a trial throws).
\<close>

definition greedySearchSequences ::
  "(pair list \<Rightarrow> nat \<Rightarrow> nat \<Rightarrow> exn + candidate list) \<Rightarrow> pair list \<Rightarrow> nat \<Rightarrow> nat \<Rightarrow>
   exn + candidate list" where
  "greedySearchSequences trials pairs numSteps numTrials =
     (let vp = validPairs pairs
      in if length vp = 0 then Inr []
         else if numTrials = 0 then Inr []
         else if list_all (\<lambda>p. parseColor (source p) \<noteq> None) vp
              then trials vp numSteps numTrials
              else Inl TypeError)"

text \<open>
  \<^verbatim>\<open>optimize\<close>.  The catalog \<open>modes\<close>, the trials of the greedy search and the
  enumeration of mode sequences are parameters.  The greedy search is called outside any
  \<^verbatim>\<open>try\<close> block, so what it throws rejects the promise; the enumeration samples
  random sequences until it has enough distinct ones, so it may fail to return
  (\<open>None\<close>).  The opacity bounds, the HSL and Levels switches and the number of hops only
  reach these parameters and the joint optimizer.  The result is how the promise ends,
  with the final state of the object.  The points where other code can run are, in order:
  \<^verbatim>\<open>onProgress\<close> for phase 0, the sleep and \<^verbatim>\<open>onProgress\<close> before the greedy
  search, the sleep and \<^verbatim>\<open>onProgress\<close> before the enumeration, and the sleep before
  phase 3; callbacks are taken not to throw.
\<close>

definition optimize ::
  "(nat \<Rightarrow> bool) \<Rightarrow> (int list \<Rightarrow> int list \<Rightarrow> real) \<Rightarrow> blendMode list \<Rightarrow>
   (pair list \<Rightarrow> nat \<Rightarrow> nat \<Rightarrow> exn + candidate list) \<Rightarrow>
   (nat \<Rightarrow> nat \<Rightarrow> string list list option) \<Rightarrow>
   (nat \<Rightarrow> candidate \<Rightarrow> nat \<Rightarrow> exn + jointResult option) \<Rightarrow>
   pair list \<Rightarrow> nat \<Rightarrow> searchOptions \<Rightarrow> (returned \<times> optimizerState) promise" where
  "optimize env dE modes trials generateModeSequences joint pairs numSteps options =
     (let st0 = \<lparr>cancelled = False, bestResult = existingBest options,
                 topSolutions = (case existingBest options of Some e \<Rightarrow> [e] | None \<Rightarrow> []),
                 tick = 0, found = []\<rparr>;
          greedyTrials = (if extensive options then 100 else 30);
          maxSequences = (if extensive options then 600 else 200);
          numRestartsBase = (if extensive options then 5 else 2);
          vp = validPairs pairs
      in if length vp = 0 then Resolved (RNull, st0)
         else
           (let st1 = interact env st0
            in case singlePhase dE vp modes st1 (None, None) of
                 Inl r \<Rightarrow> Resolved (r, st1)
               | Inr (sbm, sbe) \<Rightarrow>
                   (let st2 = interact env (interact env st1)
                    in case greedySearchSequences trials vp numSteps greedyTrials of
                         Inl e \<Rightarrow> Rejected e
                       | Inr greedyCandidates \<Rightarrow>
                           (let st3 = interact env (interact env st2)
                            in case generateModeSequences numSteps maxSequences of
                                 None \<Rightarrow> Pending
                               | Some enumerated \<Rightarrow>
                                   (let allCandidates = dedupe (greedyCandidates
                                          @ map (\<lambda>s. \<lparr>cand_modeSequence = s, initialBlends = None\<rparr>)
                                                enumerated);
                                        st4 = interact env st3
                                    in Resolved (optimizingPhase env joint numRestartsBase sbm sbe
                                                   allCandidates 0 st4))))))"

section \<open>Predicates used in the statements\<close>

text \<open>A point lies in the box $[0,1]^n$ that \<^verbatim>\<open>nelderMead\<close> clamps to.\<close>

definition inUnitBox :: "real list \<Rightarrow> bool" where
  "inUnitBox v = list_all (\<lambda>x. 0 \<le> x \<and> x \<le> 1) v"

text \<open>A point lies within the per-dimension bounds \<^verbatim>\<open>paramConfigs\<close>.\<close>

definition inBounds :: "bound list \<Rightarrow> real list \<Rightarrow> bool" where
  "inBounds cfgs v =
     list_all (\<lambda>idx. min_b (configAt cfgs idx) \<le> v ! idx \<and> v ! idx \<le> max_b (configAt cfgs idx))
              [0..<length v]"

text \<open>A result with a given weighted-average error and steps, for the examples.\<close>

definition sampleResult :: "real \<Rightarrow> step list \<Rightarrow> metaResult" where
  "sampleResult e ss =
     \<lparr>totalError = e, avgError = e, maxError = e, perPairResults = [],
      steps = ss, modeSequence = map modeName ss,
      singleBestMode = None, singleBestError = None, improvement = None\<rparr>"

text \<open>Both colors of a pair parse.\<close>

definition parses :: "pair \<Rightarrow> bool" where
  "parses p = (parseColor (source p) \<noteq> None \<and> parseColor (target p) \<noteq> None)"

text \<open>A plain blend step with a given mode and blend color, for the examples.\<close>

definition sampleStep :: "string \<Rightarrow> string \<Rightarrow> step" where
  "sampleStep m hex =
     \<lparr>modeName = m, blend_s = [1 / 2, 1 / 2, 1 / 2], opacity = 1, hslValues = None,
      levelsValues = None, blendHex_s = hex, stepError = 0\<rparr>"

text \<open>
  A value differs from \<open>t\<close> by at most \<open>eps\<close>; an infinity or \<^verbatim>\<open>NaN\<close> never does.
\<close>

definition differsAtMost :: "jsnum \<Rightarrow> real \<Rightarrow> real \<Rightarrow> bool" where
  "differsAtMost v t eps =
     (case v of Finite x \<Rightarrow> \<bar>x - t\<bar> \<le> eps | Null \<Rightarrow> \<bar>0 - t\<bar> \<le> eps | NonFinite \<Rightarrow> False)"





text \<open>
  The state \<^verbatim>\<open>optimize\<close> starts from, and the state at the head of phase 3 when phase 0
  ran to its end: six points where other code can run lie in between.
\<close>

definition startState :: "searchOptions \<Rightarrow> optimizerState" where
  "startState options =
     \<lparr>cancelled = False, bestResult = existingBest options,
      topSolutions = (case existingBest options of Some e \<Rightarrow> [e] | None \<Rightarrow> []),
      tick = 0, found = []\<rparr>"









section \<open>The initial guess in the words of the specification\<close>







text \<open>The catalog entry Normal: \<^verbatim>\<open>inverse: (s, t) => t\<close>.\<close>

definition normalMode :: blendMode where
  "normalMode = \<lparr>name = ''Normal'', inverse_m = (\<lambda>s t. Finite t)\<rparr>"

section \<open>Range of the forward evaluator\<close>

lemma clamp_unit: "0 \<le> clamp x 0 1 \<and> clamp x 0 1 \<le> 1"
  by (simp add: clamp_def)

lemma unit_mult: "0 \<le> (s::real) \<Longrightarrow> s \<le> 1 \<Longrightarrow> 0 \<le> b \<Longrightarrow> b \<le> 1 \<Longrightarrow> 0 \<le> s * b \<and> s * b \<le> 1"
  by (simp add: mult_le_one)

lemma screen_unit:
  assumes "0 \<le> (s::real)" "s \<le> 1" "0 \<le> b" "b \<le> 1"
  shows "0 \<le> 1 - (1 - s) * (1 - b) \<and> 1 - (1 - s) * (1 - b) \<le> 1"
  using unit_mult [of "1 - s" "1 - b"] assms by simp

lemma half_mult_low:
  assumes "0 \<le> (x::real)" "x < 1 / 2" "0 \<le> y" "y \<le> 1"
  shows "0 \<le> 2 * x * y \<and> 2 * x * y \<le> 1"
  using unit_mult [of "2 * x" y] assms by simp

lemma half_mult_high:
  assumes "1 / 2 \<le> (x::real)" "x \<le> 1" "0 \<le> y" "y \<le> 1"
  shows "0 \<le> 1 - 2 * (1 - x) * (1 - y) \<and> 1 - 2 * (1 - x) * (1 - y) \<le> 1"
  using unit_mult [of "2 * (1 - x)" "1 - y"] assms by simp

lemma softlight_unit:
  assumes "0 \<le> (s::real)" "s \<le> 1" "0 \<le> b" "b \<le> 1"
  shows "0 \<le> (1 - 2 * b) * s * s + 2 * b * s \<and> (1 - 2 * b) * s * s + 2 * b * s \<le> 1"
proof -
  have e: "(1 - 2 * b) * s * s + 2 * b * s = s * s + 2 * b * (s * (1 - s))"
    by (simp add: algebra_simps)
  have p: "0 \<le> s * (1 - s)" using assms by simp
  have q: "0 \<le> s * s" by simp
  have lo: "0 \<le> s * s + 2 * b * (s * (1 - s))"
    using p q assms by (simp add: add_nonneg_nonneg)
  have "2 * b * (s * (1 - s)) \<le> 2 * 1 * (s * (1 - s))"
    using p assms by (intro mult_right_mono mult_left_mono) simp_all
  then have "s * s + 2 * b * (s * (1 - s)) \<le> s * s + 2 * (s * (1 - s))" by simp
  also have "\<dots> = 1 - (1 - s) * (1 - s)" by (simp add: algebra_simps)
  also have "\<dots> \<le> 1" by simp
  finally show ?thesis using lo e by simp
qed


lemma overflowBound_gt: "2 ^ 1023 < overflowBound"
proof -
  have "(2::real) ^ 970 < 2 ^ 1023" by (rule power_strict_increasing) simp_all
  moreover have "(2::real) ^ 1024 = 2 * 2 ^ 1023" by simp
  ultimately show ?thesis unfolding overflowBound_def by linarith
qed

lemma overflowBound_lt: "overflowBound < 2 ^ 1024"
  unfolding overflowBound_def by simp

lemma small_not_overflow: "\<bar>x\<bar> \<le> 4 \<Longrightarrow> \<not> overflowBound \<le> \<bar>x\<bar>"
proof -
  have "(2::real) ^ 2 \<le> 2 ^ 1023" by (rule power_increasing) simp_all
  then have "(4::real) < overflowBound" using overflowBound_gt by simp
  then show "\<bar>x\<bar> \<le> 4 \<Longrightarrow> \<not> overflowBound \<le> \<bar>x\<bar>" by linarith
qed

lemma jsQuotient_small: "\<bar>x / y\<bar> \<le> 4 \<Longrightarrow> jsQuotient x y = Finite (x / y)"
  unfolding jsQuotient_def using small_not_overflow [of "x / y"] by simp

lemma pinlight_unit:
  assumes "0 \<le> (s::real)" "s \<le> 1" "0 \<le> b" "b \<le> 1"
  shows "0 \<le> (if b < 1 / 2 then min s (2 * b) else max s (2 * b - 1))
       \<and> (if b < 1 / 2 then min s (2 * b) else max s (2 * b - 1)) \<le> 1"
  using assms by (simp add: min_def max_def)

lemma applyBlendChannel_unclamped_modes:
  assumes "0 \<le> s" "s \<le> 1" "0 \<le> b" "b \<le> 1"
    and "m \<noteq> ''Divide''" "m \<noteq> ''Color Burn''"
    and "m \<noteq> ''Color Dodge''" "m \<noteq> ''Vivid Light''"
  shows "0 \<le> applyBlendChannel m s b \<and> applyBlendChannel m s b \<le> 1"
proof -
  have ov: "s < 1 / 2 \<Longrightarrow> 0 \<le> 2 * s * b \<and> 2 * s * b \<le> 1"
    using half_mult_low [of s b] assms by simp
  have ov': "\<not> s < 1 / 2 \<Longrightarrow> 0 \<le> 1 - 2 * (1 - s) * (1 - b) \<and> 1 - 2 * (1 - s) * (1 - b) \<le> 1"
    using half_mult_high [of s b] assms by simp
  have c1: "2 * s * b = 2 * b * s" by simp
  have c2: "2 * (1 - s) * (1 - b) = 2 * (1 - b) * (1 - s)" by (simp add: algebra_simps)
  have hl: "b < 1 / 2 \<Longrightarrow> 0 \<le> 2 * s * b \<and> 2 * s * b \<le> 1"
    unfolding c1 using half_mult_low [of b s] assms by linarith
  have hl': "\<not> b < 1 / 2 \<Longrightarrow> 0 \<le> 1 - 2 * (1 - s) * (1 - b) \<and> 1 - 2 * (1 - s) * (1 - b) \<le> 1"
    unfolding c2 using half_mult_high [of b s] assms by linarith
  have df: "0 \<le> \<bar>s - b\<bar> \<and> \<bar>s - b\<bar> \<le> 1" using assms by simp
  note facts = unit_mult [OF assms(1-4)] screen_unit [OF assms(1-4)]
    softlight_unit [OF assms(1-4)] pinlight_unit [OF assms(1-4)] clamp_unit ov ov' hl hl' df
  show ?thesis
    unfolding applyBlendChannel_def using assms(1-4) assms(5-8) facts
    by (simp del: mult_cancel_left mult_cancel_right)
qed

text \<open>
  C2, amended.  For channel values in the unit interval the forward evaluator stays in
  the unit interval for every mode name other than Divide, Color Burn, Color Dodge and
  Vivid Light; for every mode name the value clamped by the callers
  (\<^verbatim>\<open>clamp(c, 0, 1)\<close> in \<^verbatim>\<open>computeBlendError\<close>) is in the unit interval.
\<close>

theorem applyBlendChannel_range:
  assumes "0 \<le> s" "s \<le> 1" "0 \<le> b" "b \<le> 1"
  shows "(m \<notin> {''Divide'', ''Color Burn'', ''Color Dodge'', ''Vivid Light''} \<longrightarrow>
           0 \<le> applyBlendChannel m s b \<and> applyBlendChannel m s b \<le> 1)
       \<and> 0 \<le> clamp (applyBlendChannel m s b) 0 1
       \<and> clamp (applyBlendChannel m s b) 0 1 \<le> 1"
  using applyBlendChannel_unclamped_modes [OF assms, of m] clamp_unit by blast

theorem applyBlendChannel_range_witness:
  "(0::real) \<le> 1 / 4 \<and> (1 / 4::real) \<le> 1 \<and> (0::real) \<le> 1 / 2 \<and> (1 / 2::real) \<le> 1
   \<and> ''Overlay'' \<notin> {''Divide'', ''Color Burn'', ''Color Dodge'', ''Vivid Light''}
   \<and> 0 \<le> applyBlendChannel ''Overlay'' (1 / 4) (1 / 2)
   \<and> applyBlendChannel ''Overlay'' (1 / 4) (1 / 2) \<le> 1
   \<and> applyBlendChannel ''Overlay'' (1 / 4) (1 / 2) = 1 / 4"
proof -
  have h: "(0::real) \<le> 1 / 4" "(1 / 4::real) \<le> 1" "(0::real) \<le> 1 / 2" "(1 / 2::real) \<le> 1"
    by simp_all
  have v: "applyBlendChannel ''Overlay'' (1 / 4) (1 / 2) = 1 / 4"
    by (simp add: applyBlendChannel_def)
  show ?thesis
    using applyBlendChannel_range [OF h, of "''Overlay''"] v by simp
qed

text \<open>
  C2 as stated fails: Divide is a catalog mode, and for source 1 and blend 1/2 (both in
  the unit interval) the forward evaluator returns 2.
\<close>

theorem applyBlendChannel_divide_exceeds:
  "''Divide'' \<in> set blendModeNames \<and> (0::real) \<le> 1 \<and> (1::real) \<le> 1
   \<and> (0::real) \<le> 1 / 2 \<and> (1 / 2::real) \<le> 1
   \<and> applyBlendChannel ''Divide'' 1 (1 / 2) = 2
   \<and> \<not> applyBlendChannel ''Divide'' 1 (1 / 2) \<le> 1"
  by (simp add: applyBlendChannel_def blendModeNames_def)

lemma multiply_roundtrip_exact:
  "multiplyInverse s t = Finite b \<Longrightarrow> applyBlendChannel ''Multiply'' s b = t"
  by (auto simp: multiplyInverse_def jsQuotient_def applyBlendChannel_def split: if_splits)

lemma multiplyInverse_nonfinite_iff:
  assumes "0 \<le> s" "0 \<le> t"
  shows "(multiplyInverse s t = NonFinite) = (0 < s \<and> overflowBound * s \<le> t)"
proof (cases "s = 0")
  case True
  then show ?thesis by (simp add: multiplyInverse_def)
next
  case False
  then have p: "0 < s" using assms by simp
  have q: "\<bar>t / s\<bar> = t / s" using assms p by simp
  have "(overflowBound \<le> t / s) = (overflowBound * s \<le> t)"
    using p by (simp add: pos_le_divide_eq)
  then show ?thesis using False p
    unfolding multiplyInverse_def jsQuotient_def q by simp
qed

lemma multiplyInverse_tiny_source: "multiplyInverse (1 / 2 ^ 1074) 1 = NonFinite"
proof -
  have "(2::real) ^ 1024 \<le> 2 ^ 1074" by (rule power_increasing) simp_all
  then have "overflowBound \<le> \<bar>(2::real) ^ 1074\<bar>" using overflowBound_lt by simp
  then show ?thesis by (simp add: multiplyInverse_def jsQuotient_def)
qed

text \<open>
  C3, amended.  In Multiply mode the forward value \<open>s * b\<close> is monotonically
  non-decreasing in the blend channel for a fixed source in the unit interval.  For
  \<open>s\<close>, \<open>t\<close> in the unit interval the Multiply inverse is non-null and yet not a finite
  number exactly when \<open>s > 0\<close> and the quotient \<open>t / s\<close> overflows; whenever the inverse
  is a finite number \<open>b\<close>, the forward value at \<open>(s, b)\<close> is within \<open>10\<^sup>-\<^sup>4\<close> of
  \<open>t\<close> (over the reals it is \<open>t\<close> itself; rounding is not modelled).
\<close>

theorem multiply_monotone_finite_roundtrip:
  "(0 \<le> s \<and> s \<le> 1 \<and> b1 \<le> b2 \<longrightarrow>
      applyBlendChannel (name multiplyMode) s b1 \<le> applyBlendChannel (name multiplyMode) s b2)
   \<and> (0 \<le> s \<and> s \<le> 1 \<and> 0 \<le> t \<and> t \<le> 1 \<and> inverse_m multiplyMode s t = Finite b \<longrightarrow>
      \<bar>applyBlendChannel (name multiplyMode) s b - t\<bar> \<le> 1 / 10 ^ 4
      \<and> differsAtMost (multiplyForward s (inverse_m multiplyMode s t)) t (1 / 10 ^ 4))
   \<and> (0 \<le> s \<and> s \<le> 1 \<and> 0 \<le> t \<and> t \<le> 1 \<longrightarrow>
      (inverse_m multiplyMode s t = NonFinite) = (0 < s \<and> overflowBound * s \<le> t))"
proof -
  have m: "0 \<le> s \<Longrightarrow> b1 \<le> b2 \<Longrightarrow> s * b1 \<le> s * b2"
    by (rule mult_left_mono)
  have r: "multiplyInverse s t = Finite b \<Longrightarrow> \<bar>applyBlendChannel ''Multiply'' s b - t\<bar> \<le> 1 / 10 ^ 4"
    using multiply_roundtrip_exact [of s t b] by simp
  have d: "multiplyInverse s t = Finite b \<Longrightarrow>
      differsAtMost (multiplyForward s (multiplyInverse s t)) t (1 / 10 ^ 4)"
    using multiply_roundtrip_exact [of s t b] by (simp add: differsAtMost_def multiplyForward_def)
  have n: "0 \<le> s \<Longrightarrow> 0 \<le> t \<Longrightarrow>
      (multiplyInverse s t = NonFinite) = (0 < s \<and> overflowBound * s \<le> t)"
    by (rule multiplyInverse_nonfinite_iff)
  have a: "0 \<le> s \<and> s \<le> 1 \<and> b1 \<le> b2 \<longrightarrow>
      applyBlendChannel (name multiplyMode) s b1 \<le> applyBlendChannel (name multiplyMode) s b2"
    using m by (simp add: multiplyMode_def applyBlendChannel_def)
  have b: "0 \<le> s \<and> s \<le> 1 \<and> 0 \<le> t \<and> t \<le> 1 \<and> inverse_m multiplyMode s t = Finite b \<longrightarrow>
      \<bar>applyBlendChannel (name multiplyMode) s b - t\<bar> \<le> 1 / 10 ^ 4
      \<and> differsAtMost (multiplyForward s (inverse_m multiplyMode s t)) t (1 / 10 ^ 4)"
    using r d by (simp add: multiplyMode_def)
  have c: "0 \<le> s \<and> s \<le> 1 \<and> 0 \<le> t \<and> t \<le> 1 \<longrightarrow>
      (inverse_m multiplyMode s t = NonFinite) = (0 < s \<and> overflowBound * s \<le> t)"
    using n by (simp add: multiplyMode_def)
  show ?thesis using a b c by blast
qed

theorem multiply_monotone_finite_roundtrip_witness:
  "((0::real) \<le> 1 / 2 \<and> (1 / 2::real) \<le> 1 \<and> (1 / 4::real) \<le> 3 / 4)
   \<and> applyBlendChannel (name multiplyMode) (1 / 2) (1 / 4)
       \<le> applyBlendChannel (name multiplyMode) (1 / 2) (3 / 4)
   \<and> (0::real) \<le> 1 / 4 \<and> (1 / 4::real) \<le> 1
   \<and> inverse_m multiplyMode (1 / 2) (1 / 4) = Finite (1 / 2)
   \<and> \<bar>applyBlendChannel (name multiplyMode) (1 / 2) (1 / 2) - 1 / 4\<bar> \<le> 1 / 10 ^ 4
   \<and> differsAtMost (multiplyForward (1 / 2) (inverse_m multiplyMode (1 / 2) (1 / 4))) (1 / 4) (1 / 10 ^ 4)
   \<and> inverse_m multiplyMode (1 / 2) (1 / 4) \<noteq> NonFinite
   \<and> \<not> overflowBound * (1 / 2) \<le> 1 / 4"
proof -
  have i: "inverse_m multiplyMode (1 / 2) (1 / 4) = Finite (1 / 2)"
    using jsQuotient_small [of "1 / 4" "1 / 2"] by (simp add: multiplyMode_def multiplyInverse_def)
  show ?thesis
    using multiply_monotone_finite_roundtrip [of "1 / 2" "1 / 4" "3 / 4" "1 / 4" "1 / 2"] i by simp
qed

text \<open>
  C3 as stated fails: for the source \<open>2\<^sup>-\<^sup>1\<^sup>0\<^sup>7\<^sup>4\<close> (the smallest positive double) and
  the target 1, both in the unit interval, the quotient overflows, so the inverse is
  \<^verbatim>\<open>Infinity\<close>, which is not \<^verbatim>\<open>null\<close>, and the forward value at it is not within
  \<open>10\<^sup>-\<^sup>4\<close> of the target.
\<close>

theorem multiply_roundtrip_overflow:
  "(0::real) \<le> 1 / 2 ^ 1074 \<and> (1 / 2 ^ 1074::real) \<le> 1 \<and> (0::real) \<le> 1 \<and> (1::real) \<le> 1
   \<and> inverse_m multiplyMode (1 / 2 ^ 1074) 1 = NonFinite
   \<and> inverse_m multiplyMode (1 / 2 ^ 1074) 1 \<noteq> Null
   \<and> \<not> differsAtMost (multiplyForward (1 / 2 ^ 1074) (inverse_m multiplyMode (1 / 2 ^ 1074) 1))
           1 (1 / 10 ^ 4)"
proof -
  have "(1::real) \<le> 2 ^ 1074" by (rule one_le_power) simp
  then have r: "(0::real) \<le> 1 / 2 ^ 1074 \<and> (1 / 2 ^ 1074::real) \<le> 1" by (simp add: divide_le_eq)
  have i: "inverse_m multiplyMode (1 / 2 ^ 1074) 1 = NonFinite"
    unfolding multiplyMode_def by (simp only: blendMode.select_convs multiplyInverse_tiny_source)
  have n: "NonFinite \<noteq> Null" by simp
  have d: "\<not> differsAtMost (multiplyForward (1 / 2 ^ 1074) NonFinite) 1 (1 / 10 ^ 4)"
    by (simp add: differsAtMost_def multiplyForward_def)
  have o: "(0::real) \<le> 1 \<and> (1::real) \<le> 1" by simp
  show ?thesis unfolding i using r n d o by (auto simp only:)
qed

section \<open>Which points the simplex search evaluates\<close>


lemma calls_nmSort [simp]: "calls (nmSort st) = calls st"
  by (simp add: nmSort_def Let_def)

lemma calls_nmSortInPlace [simp]: "calls (nmSortInPlace st) = calls st"
  by (simp add: nmSortInPlace_def Let_def)

lemma nmShrink_calls:
  "\<exists>ys. calls (nmShrink c f n st) = calls st @ ys \<and> set ys \<subseteq> range c"
  by (auto simp: nmShrink_def Let_def)

lemma nmBody_calls:
  "\<exists>ys. calls (nmBody c f n st) = calls st @ ys \<and> set ys \<subseteq> range c"
proof -
  have sh: "\<And>st'. \<exists>ys. calls (nmShrink c f n st') = calls st' @ ys \<and> set ys \<subseteq> range c"
    by (rule nmShrink_calls)
  show ?thesis
    unfolding nmBody_def Let_def
    apply (simp split: if_splits)
    apply (intro conjI impI)
    apply (auto simp: nmShrink_def Let_def)
    done
qed

lemma nmLoop_calls:
  assumes "\<And>s. calls (srt s) = calls s"
  shows "\<exists>ys. calls (nmLoop srt (nmBody c f n) tol n k st) = calls st @ ys \<and> set ys \<subseteq> range c"
proof (induction k arbitrary: st)
  case 0
  show ?case by simp
next
  case (Suc k)
  obtain ys where ys: "calls (nmBody c f n (srt st)) = calls st @ ys" "set ys \<subseteq> range c"
    using nmBody_calls [of c f n "srt st"] assms by auto
  obtain zs where zs: "calls (nmLoop srt (nmBody c f n) tol n k (nmBody c f n (srt st)))
        = calls (nmBody c f n (srt st)) @ zs" "set zs \<subseteq> range c"
    using Suc.IH by blast
  show ?case
  proof (cases "fvalues (srt st) ! n - fvalues (srt st) ! 0 < tol")
    case True
    then show ?thesis using assms by (simp add: Let_def)
  next
    case False
    have "calls (nmLoop srt (nmBody c f n) tol n (Suc k) st) = calls st @ (ys @ zs)"
      using False ys zs by (simp add: Let_def)
    moreover have "set (ys @ zs) \<subseteq> range c" using ys zs by simp
    ultimately show ?thesis by blast
  qed
qed



lemma listMin_in: "vs \<noteq> [] \<Longrightarrow> listMin vs \<in> set vs"
proof -
  have f: "\<And>v. fold min ws v \<in> insert v (set ws)" for ws :: "real list"
    by (induction ws) (auto simp: min_def)
  show "vs \<noteq> [] \<Longrightarrow> listMin vs \<in> set vs"
    using f by (cases vs) auto
qed

lemma indexOf_less: "x \<in> set xs \<Longrightarrow> indexOf xs x < length xs"
  unfolding indexOf_def by (induction xs) auto

lemma set_sortedIndices: "set (sortedIndices vs) = {0..<length vs}"
  by (simp add: sortedIndices_def)

lemma length_sortedIndices: "length (sortedIndices vs) = length vs"
  by (simp add: sortedIndices_def)

lemma nmSort_inv:
  assumes "length (simplex st) = Suc n" "length (fvalues st) = Suc n"
  shows "length (simplex (nmSort st)) = Suc n \<and> length (fvalues (nmSort st)) = Suc n
       \<and> set (simplex (nmSort st)) \<subseteq> set (simplex st)"
  using assms by (auto simp: nmSort_def Let_def length_sortedIndices set_sortedIndices)

lemma nmSortInPlace_inv:
  assumes "length (simplex st) = Suc n" "length (fvalues st) = Suc n"
  shows "length (simplex (nmSortInPlace st)) = Suc n \<and> length (fvalues (nmSortInPlace st)) = Suc n
       \<and> set (simplex (nmSortInPlace st)) \<subseteq> set (simplex st)"
proof -
  define ks where
    "ks = sort_key (\<lambda>k. fvalues st ! indexOf (sortedIndices (fvalues st)) k) [0..<length (simplex st)]"
  define S1 where "S1 = map (\<lambda>k. simplex st ! k) ks"
  have ks: "set ks = {0..<Suc n}" "length ks = Suc n"
    using assms by (auto simp: ks_def)
  have S1: "length S1 = Suc n" "set S1 \<subseteq> set (simplex st)"
    using ks assms by (auto simp: S1_def)
  have e: "simplex (nmSortInPlace st) = map (\<lambda>i. S1 ! i) (sortedIndices (fvalues st))"
    "fvalues (nmSortInPlace st) = map (\<lambda>i. fvalues st ! i) (sortedIndices (fvalues st))"
    by (simp_all add: nmSortInPlace_def Let_def S1_def ks_def)
  have "set (map (\<lambda>i. S1 ! i) (sortedIndices (fvalues st))) \<subseteq> set S1"
    using S1(1) assms(2) by (auto simp: set_sortedIndices)
  then show ?thesis
    using e S1 assms by (simp add: length_sortedIndices)
qed

lemma nmShrink_inv:
  assumes "length (simplex st) = Suc n" "length (fvalues st) = Suc n"
  shows "length (simplex (nmShrink c f n st)) = Suc n \<and> length (fvalues (nmShrink c f n st)) = Suc n
       \<and> set (simplex (nmShrink c f n st)) \<subseteq> set (simplex st) \<union> range c"
  using assms by (auto simp: nmShrink_def Let_def)

lemma nmBody_cases:
  "(\<exists>x v l. nmBody c f n st = \<lparr>simplex = (simplex st)[n := c x], fvalues = (fvalues st)[n := v], calls = l\<rparr>)
   \<or> (\<exists>l. nmBody c f n st = nmShrink c f n \<lparr>simplex = simplex st, fvalues = fvalues st, calls = l\<rparr>)"
  unfolding nmBody_def Let_def by (simp only: split: if_split) blast

lemma nmBody_inv:
  assumes "length (simplex st) = Suc n" "length (fvalues st) = Suc n"
  shows "length (simplex (nmBody c f n st)) = Suc n \<and> length (fvalues (nmBody c f n st)) = Suc n
       \<and> set (simplex (nmBody c f n st)) \<subseteq> set (simplex st) \<union> range c"
proof -
  have u: "\<And>x. set ((simplex st)[n := c x]) \<subseteq> set (simplex st) \<union> range c"
    using set_update_subset_insert [of "simplex st" n] by fastforce
  from nmBody_cases [of c f n st] show ?thesis
  proof (elim disjE exE)
    fix x v l
    assume "nmBody c f n st = \<lparr>simplex = (simplex st)[n := c x], fvalues = (fvalues st)[n := v], calls = l\<rparr>"
    then show ?thesis using assms u by simp
  next
    fix l
    assume "nmBody c f n st = nmShrink c f n \<lparr>simplex = simplex st, fvalues = fvalues st, calls = l\<rparr>"
    then show ?thesis
      using nmShrink_inv [of "\<lparr>simplex = simplex st, fvalues = fvalues st, calls = l\<rparr>" n c f] assms
      by simp
  qed
qed

lemma nmLoop_inv:
  assumes srt: "\<And>s. length (simplex s) = Suc n \<Longrightarrow> length (fvalues s) = Suc n \<Longrightarrow>
            length (simplex (srt s)) = Suc n \<and> length (fvalues (srt s)) = Suc n
            \<and> set (simplex (srt s)) \<subseteq> set (simplex s)"
    and "length (simplex st) = Suc n" "length (fvalues st) = Suc n"
  shows "length (simplex (nmLoop srt (nmBody c f n) tol n k st)) = Suc n
       \<and> length (fvalues (nmLoop srt (nmBody c f n) tol n k st)) = Suc n
       \<and> set (simplex (nmLoop srt (nmBody c f n) tol n k st)) \<subseteq> set (simplex st) \<union> range c"
  using assms(2,3)
proof (induction k arbitrary: st)
  case 0
  then show ?case by simp
next
  case (Suc k)
  note s = srt [OF Suc.prems]
  have b: "length (simplex (nmBody c f n (srt st))) = Suc n \<and> length (fvalues (nmBody c f n (srt st))) = Suc n
       \<and> set (simplex (nmBody c f n (srt st))) \<subseteq> set (simplex (srt st)) \<union> range c"
    using nmBody_inv [of "srt st" n c f] s by simp
  have ih: "length (simplex (nmLoop srt (nmBody c f n) tol n k (nmBody c f n (srt st)))) = Suc n
       \<and> length (fvalues (nmLoop srt (nmBody c f n) tol n k (nmBody c f n (srt st)))) = Suc n
       \<and> set (simplex (nmLoop srt (nmBody c f n) tol n k (nmBody c f n (srt st))))
            \<subseteq> set (simplex (nmBody c f n (srt st))) \<union> range c"
    using Suc.IH [of "nmBody c f n (srt st)"] b by simp
  show ?case
  proof (cases "fvalues (srt st) ! n - fvalues (srt st) ! 0 < tol")
    case True
    then show ?thesis using s by (auto simp: Let_def)
  next
    case False
    then show ?thesis using s b ih by (simp add: Let_def) blast
  qed
qed

lemma nmBest_in:
  assumes "length (simplex st) = Suc n" "length (fvalues st) = Suc n"
  shows "fst (nmBest st) \<in> set (simplex st) \<and> snd (nmBest st) \<in> set (fvalues st)"
proof -
  have ne: "fvalues st \<noteq> []" using assms by auto
  have "indexOf (fvalues st) (listMin (fvalues st)) < Suc n"
    using indexOf_less [OF listMin_in [OF ne]] assms by simp
  then show ?thesis using assms by (simp add: nmBest_def Let_def)
qed

section \<open>Bounds of the evaluated points\<close>


lemma clampUnit_inUnitBox: "inUnitBox (clampUnit v)"
  by (simp add: inUnitBox_def clampUnit_def list_all_iff clamp_def)

lemma clampParams_inBounds:
  assumes "\<forall>c\<in>set cfgs. min_b c \<le> max_b c"
  shows "inBounds cfgs (clampParams cfgs v)"
proof -
  have c: "min_b (configAt cfgs idx) \<le> max_b (configAt cfgs idx)" for idx
    using assms by (simp add: configAt_def)
  show ?thesis
    using c by (simp add: inBounds_def clampParams_def list_all_iff clamp_def)
qed

lemma nelderMeadMultiDim_calls_in_bounds:
  assumes "\<forall>c\<in>set cfgs. min_b c \<le> max_b c"
    and "cfgs = (case paramConfigs options of None \<Rightarrow> [] | Some c \<Rightarrow> c)"
    and "p \<in> set (calls (nelderMeadMultiDimRun objective initial options))"
  shows "inBounds cfgs p"
proof -
  define simplex0 where "simplex0 = clampParams cfgs initial
       # map (\<lambda>i. clampParams cfgs (initial[i := initial ! i + orReal (initialStep options) (2 / 10)]))
             [0..<length initial]"
  define st0 where "st0 = \<lparr>simplex = simplex0, fvalues = map objective simplex0, calls = simplex0\<rparr>"
  have run: "nelderMeadMultiDimRun objective initial options
      = nmLoop nmSort (nmBody (clampParams cfgs) objective (length initial))
          (orReal (tolerance options) (1 / 10 ^ 8)) (length initial)
          (orNat (maxIterations options) 500) st0"
    by (simp add: nelderMeadMultiDimRun_def Let_def st0_def simplex0_def assms(2))
  obtain ys where ys: "calls (nelderMeadMultiDimRun objective initial options) = calls st0 @ ys"
      "set ys \<subseteq> range (clampParams cfgs)"
    unfolding run using nmLoop_calls [of nmSort "clampParams cfgs" objective "length initial"] 
    by (metis calls_nmSort)
  have "set simplex0 \<subseteq> range (clampParams cfgs)"
    by (auto simp: simplex0_def)
  then have "p \<in> range (clampParams cfgs)"
    using assms(3) ys by (auto simp: st0_def)
  then show ?thesis using clampParams_inBounds [OF assms(1)] by auto
qed

lemma inUnitBox_update: "inUnitBox v \<Longrightarrow> inUnitBox (v[i := clamp x 0 1])"
  unfolding inUnitBox_def list_all_iff
  using set_update_subset_insert [of v i "clamp x 0 1"] by (auto simp: clamp_def)

lemma nelderMead_calls_in_unit_box:
  assumes "inUnitBox initial"
    and "p \<in> set (calls (nelderMeadRun objective initial options))"
  shows "inUnitBox p"
proof -
  define simplex0 where
    "simplex0 = initial # map (\<lambda>i. initial[i := clamp (initial ! i + 1 / 10) 0 1]) [0..<3]"
  define st0 where "st0 = \<lparr>simplex = simplex0, fvalues = map objective simplex0, calls = simplex0\<rparr>"
  have run: "nelderMeadRun objective initial options
      = nmLoop nmSortInPlace (nmBody clampUnit objective 3)
          (orReal (tolerance options) (1 / 10 ^ 6)) 3 (orNat (maxIterations options) 200) st0"
    by (simp add: nelderMeadRun_def Let_def st0_def simplex0_def)
  obtain ys where ys: "calls (nelderMeadRun objective initial options) = calls st0 @ ys"
      "set ys \<subseteq> range clampUnit"
    unfolding run using nmLoop_calls [of nmSortInPlace clampUnit objective 3]
    by (metis calls_nmSortInPlace)
  have "\<forall>q\<in>set simplex0. inUnitBox q"
    using assms(1) inUnitBox_update by (auto simp: simplex0_def)
  moreover have "\<forall>q\<in>set ys. inUnitBox q"
    using ys(2) clampUnit_inUnitBox by auto
  ultimately show ?thesis using assms(2) ys(1) by (auto simp: st0_def)
qed

lemma nelderMead_calls_initial:
  "initial \<in> set (calls (nelderMeadRun objective initial options))"
proof -
  define simplex0 where
    "simplex0 = initial # map (\<lambda>i. initial[i := clamp (initial ! i + 1 / 10) 0 1]) [0..<3]"
  define st0 where "st0 = \<lparr>simplex = simplex0, fvalues = map objective simplex0, calls = simplex0\<rparr>"
  have run: "nelderMeadRun objective initial options
      = nmLoop nmSortInPlace (nmBody clampUnit objective 3)
          (orReal (tolerance options) (1 / 10 ^ 6)) 3 (orNat (maxIterations options) 200) st0"
    by (simp add: nelderMeadRun_def Let_def st0_def simplex0_def)
  obtain ys where ys: "calls (nelderMeadRun objective initial options) = calls st0 @ ys"
    unfolding run using nmLoop_calls [of nmSortInPlace clampUnit objective 3]
    by (metis calls_nmSortInPlace)
  show ?thesis unfolding ys by (simp add: st0_def simplex0_def)
qed

text \<open>
  C1.  The claim is that every point the objective is evaluated on lies within the bounds,
  for every objective and every initial point.  \<^verbatim>\<open>nelderMeadMultiDim\<close> clamps
  every vertex, the first included (\<open>nelderMeadMultiDim_calls_in_bounds\<close>), and
  \<^verbatim>\<open>nelderMead\<close> clamps every later vertex
  (\<open>nelderMead_calls_in_unit_box\<close>), but \<^verbatim>\<open>nelderMead\<close> seeds the simplex with
  the unclamped \<^verbatim>\<open>initial.slice()\<close>: from the initial point \<open>[2, 0.5, 0.5]\<close> the
  objective, whatever it is, is evaluated on \<open>[2, 0.5, 0.5]\<close>, outside $[0,1]^3$.
\<close>

theorem nelderMead_evaluates_unclamped_initial:
  "[2, 1 / 2, 1 / 2] \<in> set (calls (nelderMeadRun objective [2, 1 / 2, 1 / 2] options))
   \<and> \<not> inUnitBox [2, 1 / 2, 1 / 2]"
  using nelderMead_calls_initial [of "[2, 1 / 2, 1 / 2]" objective options]
  by (simp add: inUnitBox_def)

lemma upt_0_3: "[0..<3] = [0, 1, 2]"
  by (simp add: numeral_3_eq_3 upt_rec)

lemma upt_0_4: "[0..<4] = [0, 1, 2, 3]"
  by (simp add: numeral_eq_Suc upt_rec)

lemma nmLoop_stops_at_once:
  assumes "0 < k" "fvalues (srt st) ! n - fvalues (srt st) ! 0 < tol"
  shows "nmLoop srt body tol n k st = srt st"
  using assms by (cases k) (simp_all add: Let_def)

text \<open>
  With a constant objective the search stops at the first convergence test; the points it
  has evaluated by then are the four initial vertices, three of them outside $[0,1]^3$.
\<close>

lemma nelderMead_constant_objective_calls:
  "calls (nelderMeadRun (\<lambda>v. 0) [2, 1 / 2, 1 / 2]
            \<lparr>maxIterations = Some 300, tolerance = Some (1 / 10 ^ 7), initialStep = None,
             paramConfigs = None\<rparr>)
   = [[2, 1 / 2, 1 / 2], [1, 1 / 2, 1 / 2], [2, 6 / 10, 1 / 2], [2, 1 / 2, 6 / 10]]"
proof -
  define st0 :: nmState where "st0 = \<lparr>simplex =
           [[2, 1 / 2, 1 / 2], [1, 1 / 2, 1 / 2], [2, 6 / 10, 1 / 2], [2, 1 / 2, 6 / 10]],
           fvalues = [0, 0, 0, 0],
           calls = [[2, 1 / 2, 1 / 2], [1, 1 / 2, 1 / 2], [2, 6 / 10, 1 / 2], [2, 1 / 2, 6 / 10]]\<rparr>"
  have run: "nelderMeadRun (\<lambda>v. 0) [2, 1 / 2, 1 / 2]
            \<lparr>maxIterations = Some 300, tolerance = Some (1 / 10 ^ 7), initialStep = None,
             paramConfigs = None\<rparr>
      = nmLoop nmSortInPlace (nmBody clampUnit (\<lambda>v. 0) 3) (1 / 10 ^ 7) 3 300 st0"
    by (simp add: nelderMeadRun_def Let_def clamp_def st0_def upt_0_3)
  have i: "sortedIndices [0, 0, 0, 0] = [0, 1, 2, 3]"
    by (simp add: sortedIndices_def upt_0_4)
  have v: "fvalues (nmSortInPlace st0) = [0, 0, 0, 0]"
    by (simp add: nmSortInPlace_def Let_def st0_def i)
  have l: "nmLoop nmSortInPlace (nmBody clampUnit (\<lambda>v. 0) 3) (1 / 10 ^ 7) 3 300 st0 = nmSortInPlace st0"
    by (rule nmLoop_stops_at_once) (simp_all add: v)
  have "calls (nelderMeadRun (\<lambda>v. 0) [2, 1 / 2, 1 / 2]
            \<lparr>maxIterations = Some 300, tolerance = Some (1 / 10 ^ 7), initialStep = None,
             paramConfigs = None\<rparr>) = calls st0"
    unfolding run l by (rule calls_nmSortInPlace)
  then show ?thesis by (simp add: st0_def)
qed

section \<open>Constraints on the levels result\<close>


lemma foldl_keepBest:
  assumes "\<And>s. s \<in> set starts \<Longrightarrow> P (fst (g s))"
    and "\<And>p. fst acc = Some p \<Longrightarrow> P p"
  shows "(\<forall>p. fst (foldl (\<lambda>a s. keepBest a (g s)) acc starts) = Some p \<longrightarrow> P p)
       \<and> (starts \<noteq> [] \<and> snd acc = None \<or> fst acc \<noteq> None \<longrightarrow>
            fst (foldl (\<lambda>a s. keepBest a (g s)) acc starts) \<noteq> None)"
  using assms
proof (induction starts arbitrary: acc)
  case Nil
  then show ?case by simp
next
  case (Cons s starts)
  have k: "\<And>p. fst (keepBest acc (g s)) = Some p \<Longrightarrow> P p"
    using Cons.prems by (auto simp: keepBest_def split: if_splits)
  have n: "snd acc = None \<or> fst acc \<noteq> None \<Longrightarrow> fst (keepBest acc (g s)) \<noteq> None"
    by (auto simp: keepBest_def)
  have ih: "(\<forall>p. fst (foldl (\<lambda>a s. keepBest a (g s)) (keepBest acc (g s)) starts) = Some p \<longrightarrow> P p)
       \<and> (starts \<noteq> [] \<and> snd (keepBest acc (g s)) = None \<or> fst (keepBest acc (g s)) \<noteq> None \<longrightarrow>
            fst (foldl (\<lambda>a s. keepBest a (g s)) (keepBest acc (g s)) starts) \<noteq> None)"
    using Cons.IH [of "keepBest acc (g s)"] Cons.prems(1) k by simp
  show ?case using ih n by auto
qed

lemma nelderMead5D_in_range: "fst (nelderMead5D fn initial options) \<in> range clampLevels"
proof -
  define simplex0 where "simplex0 = clampLevels initial
       # map (\<lambda>i. clampLevels (initial[i := initial ! i + [10, -10, 2 / 10, 10, -10] ! i])) [0..<5]"
  define st0 where "st0 = \<lparr>simplex = simplex0, fvalues = map fn simplex0, calls = simplex0\<rparr>"
  have run: "nelderMead5DRun fn initial options
      = nmLoop nmSort (nmBody clampLevels fn 5) (orReal (tolerance options) (1 / 10 ^ 6)) 5
          (orNat (maxIterations options) 800) st0"
    by (simp add: nelderMead5DRun_def Let_def st0_def simplex0_def)
  have l0: "length (simplex st0) = Suc 5" "length (fvalues st0) = Suc 5"
    by (simp_all add: st0_def simplex0_def)
  have s0: "set (simplex st0) \<subseteq> range clampLevels"
    by (auto simp: st0_def simplex0_def)
  have inv: "length (simplex (nelderMead5DRun fn initial options)) = Suc 5
       \<and> length (fvalues (nelderMead5DRun fn initial options)) = Suc 5
       \<and> set (simplex (nelderMead5DRun fn initial options)) \<subseteq> set (simplex st0) \<union> range clampLevels"
    unfolding run by (rule nmLoop_inv [OF nmSort_inv l0])
  have "fst (nmBest (nelderMead5DRun fn initial options)) \<in> set (simplex (nelderMead5DRun fn initial options))"
    using nmBest_in [of "nelderMead5DRun fn initial options" 5] inv by simp
  then show ?thesis using inv s0 by (auto simp: nelderMead5D_def)
qed

lemma levelsSearch_Some:
  "\<exists>q. levelsSearch objective = Some (clampLevels q)"
proof -
  let ?g = "\<lambda>start. nelderMead5D objective start
                      \<lparr>maxIterations = Some 500, tolerance = None,
                       initialStep = None, paramConfigs = None\<rparr>"
  have "(\<forall>p. fst (foldl (\<lambda>a s. keepBest a (?g s)) (None, None) levelsStartingPoints) = Some p
            \<longrightarrow> p \<in> range clampLevels)
       \<and> (levelsStartingPoints \<noteq> [] \<and> snd (None :: real list option, None :: real option) = None
            \<or> fst (None :: real list option, None :: real option) \<noteq> None \<longrightarrow>
            fst (foldl (\<lambda>a s. keepBest a (?g s)) (None, None) levelsStartingPoints) \<noteq> None)"
    by (rule foldl_keepBest) (simp_all add: nelderMead5D_in_range)
  moreover have "levelsStartingPoints \<noteq> []" by (simp add: levelsStartingPoints_def)
  ultimately show ?thesis
    unfolding levelsSearch_def by auto
qed

lemma mathRound_mono: "x \<le> y \<Longrightarrow> mathRound x \<le> mathRound y"
  by (simp add: mathRound_def floor_mono)

lemma mathRound_add_int: "mathRound (x + of_int k) = mathRound x + k"
proof -
  have "x + of_int k + 1 / 2 = (x + 1 / 2) + of_int k" by simp
  then show ?thesis unfolding mathRound_def by (simp only: floor_add_int)
qed

lemma clampLevels_rounded:
  "real_of_int (mathRound (clampLevels q ! 1)) \<ge> real_of_int (mathRound (clampLevels q ! 0)) + 2
   \<and> 1 / 10 \<le> real_of_int (mathRound (clampLevels q ! 2 * 100)) / 100
   \<and> real_of_int (mathRound (clampLevels q ! 2 * 100)) / 100 \<le> 999 / 100"
proof -
  define ib where "ib = max 0 (min 253 (q ! 0))"
  define iw where "iw = max (ib + 2) (min 255 (q ! 1))"
  define gam where "gam = max (1 / 10) (min (999 / 100) (q ! 2))"
  have e: "clampLevels q ! 0 = ib" "clampLevels q ! 1 = iw" "clampLevels q ! 2 = gam"
    by (simp_all add: clampLevels_def Let_def ib_def iw_def gam_def)
  have "ib + 2 \<le> iw" by (simp add: iw_def)
  then have "mathRound (ib + of_int 2) \<le> mathRound iw" by (intro mathRound_mono) simp
  then have w: "mathRound ib + 2 \<le> mathRound iw" by (simp only: mathRound_add_int)
  have g: "1 / 10 \<le> gam" "gam \<le> 999 / 100" by (simp_all add: gam_def)
  have "mathRound (0 + of_int 10) \<le> mathRound (gam * 100)" using g by (intro mathRound_mono) simp
  then have g1: "10 \<le> mathRound (gam * 100)" by (simp add: mathRound_def)
  have "mathRound (gam * 100) \<le> mathRound (0 + of_int 999)" using g by (intro mathRound_mono) simp
  then have g2: "mathRound (gam * 100) \<le> 999" by (simp add: mathRound_def)
  have g1': "10 \<le> real_of_int (mathRound (gam * 100))" using g1 by linarith
  have g2': "real_of_int (mathRound (gam * 100)) \<le> 999" using g2 by linarith
  have w': "real_of_int (mathRound ib) + 2 \<le> real_of_int (mathRound iw)" using w by linarith
  show ?thesis unfolding e using w' g1' g2' by simp
qed

text \<open>
  C5.  For every pair list with at least one complete pair (and every distance \<open>dE\<close>
  and levels transform), \<^verbatim>\<open>optimizeLevels\<close> returns a result, not \<^verbatim>\<open>null\<close> and
  not an exception, whose rounded parameters satisfy
  \<open>inputWhite \<ge> inputBlack + 2\<close> and \<open>0.1 \<le> inputGamma \<le> 9.99\<close>.
\<close>

theorem optimizeLevels_constraints:
  assumes "validPairs pairs \<noteq> []"
  shows "\<exists>r. optimizeLevels dE applyLevelsAdjustment pairs = Inr (Some r)
           \<and> inputWhite (params r) \<ge> inputBlack (params r) + 2
           \<and> 1 / 10 \<le> inputGamma (params r) \<and> inputGamma (params r) \<le> 999 / 100"
proof -
  let ?objective = "\<lambda>p. totalError (computeLevelsError dE applyLevelsAdjustment (validPairs pairs)
                                 \<lparr>inputBlack = p ! 0, inputWhite = p ! 1, inputGamma = p ! 2,
                                  outputBlack = p ! 3, outputWhite = p ! 4\<rparr>)"
  obtain q where q: "levelsSearch ?objective = Some (clampLevels q)"
    using levelsSearch_Some by blast
  show ?thesis
    using assms q clampLevels_rounded [of q]
    by (simp add: optimizeLevels_def Let_def)
qed


theorem optimizeLevels_constraints_witness:
  "validPairs [\<lparr>source = Some ''#102030'', target = Some ''#405060'', weight = Some 1\<rparr>] \<noteq> []
   \<and> (\<exists>r. optimizeLevels (\<lambda>t a. 0) (\<lambda>s ps. s)
              [\<lparr>source = Some ''#102030'', target = Some ''#405060'', weight = Some 1\<rparr>] = Inr (Some r)
           \<and> inputWhite (params r) \<ge> inputBlack (params r) + 2
           \<and> 1 / 10 \<le> inputGamma (params r) \<and> inputGamma (params r) \<le> 999 / 100)"
proof -
  have h: "validPairs [\<lparr>source = Some ''#102030'', target = Some ''#405060'', weight = Some 1\<rparr>] \<noteq> []"
    by (simp add: validPairs_def)
  show ?thesis
    using h optimizeLevels_constraints [OF h, of "\<lambda>t a. 0" "\<lambda>s ps. s"] by simp
qed

section \<open>The initial guess\<close>
















lemma parseColor_000000: "parseColor (Some ''#000000'') = Some [0, 0, 0]"
  by code_simp

lemma parseColor_ffffff: "parseColor (Some ''#ffffff'') = Some [255, 255, 255]"
  by code_simp

text \<open>
  With a negative weight the weighted average of clamped inverses leaves the unit
  interval: this is an out-of-bounds starting point that \<^verbatim>\<open>optimizeBlend\<close> hands to
  \<^verbatim>\<open>nelderMead\<close>.
\<close>

lemma normal_guess_negative_weight:
  "computeInitialGuess normalMode
       [\<lparr>source = Some ''#000000'', target = Some ''#ffffff'', weight = Some 2\<rparr>,
        \<lparr>source = Some ''#000000'', target = Some ''#000000'', weight = Some (- 1)\<rparr>] = [2, 2, 2]"
  by (simp add: computeInitialGuess_def guessStep_def parseColor_000000 parseColor_ffffff
       invertPair_def normalMode_def clamp_def numeral_2_eq_2
       del: parseColor.simps)

section \<open>Basin hopping\<close>


lemma basinHop_value:
  "fst (snd (basinHop objective cfgs rnd (solution, value, k) hop)) \<le> value"
  by (simp add: basinHop_def perturbSolution_def Let_def)

lemma basinHop_le:
  "fst (snd (basinHop objective cfgs rnd acc hop)) \<le> fst (snd acc)"
  using basinHop_value [of objective cfgs rnd "fst acc" "fst (snd acc)" "snd (snd acc)" hop]
  by simp

lemma foldl_basinHop_le:
  "fst (snd (foldl (basinHop objective cfgs rnd) acc hops)) \<le> fst (snd acc)"
proof (induction hops arbitrary: acc)
  case Nil
  show ?case by simp
next
  case (Cons hop hops)
  have "fst (snd (foldl (basinHop objective cfgs rnd) (basinHop objective cfgs rnd acc hop) hops))
        \<le> fst (snd (basinHop objective cfgs rnd acc hop))"
    by (rule Cons.IH)
  also have "\<dots> \<le> fst (snd acc)" by (rule basinHop_le)
  finally show ?case by simp
qed

text \<open>
  C6.  One basin hop adopts the perturbed-and-refined solution exactly when its value is
  strictly lower than the value held before the hop, so the value retained after a hop is
  at most the value before it, and the value after the whole hopping loop of a restart is
  at most the value the restart's own refinement returned; this holds for every objective
  and every outcome of the random draws.
\<close>

theorem basinHopping_never_worsens:
  "basinHop objective cfgs rnd (solution, value, k) hop =
     (let hopResult = nelderMeadMultiDim objective
            (fst (perturbSolution rnd k solution (2 / 10 + real hop * (1 / 10)) cfgs))
            \<lparr>maxIterations = Some 300, tolerance = Some (1 / 10 ^ 7),
             initialStep = Some (15 / 100), paramConfigs = Some cfgs\<rparr>
      in if snd hopResult < value then (fst hopResult, snd hopResult, k + length solution)
         else (solution, value, k + length solution))
   \<and> fst (snd (basinHop objective cfgs rnd (solution, value, k) hop)) \<le> value
   \<and> fst (snd (basinHopping objective cfgs rnd basinHops (solution, value, k))) \<le> value"
proof -
  have a: "fst (snd (basinHopping objective cfgs rnd basinHops (solution, value, k))) \<le> value"
    using foldl_basinHop_le [of objective cfgs rnd "(solution, value, k)" "[0..<basinHops]"]
    by (simp add: basinHopping_def)
  show ?thesis
    using a basinHop_value [of objective cfgs rnd solution "value" k hop]
    by (simp add: basinHop_def perturbSolution_def Let_def)
qed


theorem basinHopping_never_worsens_witness:
  "fst (snd (basinHop (\<lambda>v. 0) [] (\<lambda>i. 1 / 2) ([1 / 2], 0, 0) 0)) \<le> 0
   \<and> fst (snd (basinHopping (\<lambda>v. 0) [] (\<lambda>i. 1 / 2) 2 ([1 / 2], 0, 0))) \<le> 0"
  using basinHopping_never_worsens [of "\<lambda>v. 0" "[]" "\<lambda>i. 1 / 2" "[1 / 2]" 0 0 0 2]
  by blast

section \<open>Cancellation of the multi-step search\<close>


lemma interact_simps [simp]:
  "bestResult (interact env st) = bestResult st"
  "found (interact env st) = found st"
  "topSolutions (interact env st) = topSolutions st"
  "cancelled (interact env st) = (cancelled st \<or> env (tick st))"
  by (simp_all add: interact_def)

lemma tick_interact [simp]: "tick (interact env st) = Suc (tick st)"
  by (simp add: interact_def)
















lemma startState_simps [simp]:
  "cancelled (startState options) = False"
  "bestResult (startState options) = existingBest options"
  "found (startState options) = []"
  "tick (startState options) = 0"
  by (simp_all add: startState_def)





text \<open>
  Runs on one complete pair: an undisturbed run over an empty catalog and no candidates,
  a run whose first progress callback cancels the search, and a run with two candidates
  that is cancelled by the progress callback of the first one.
\<close>

lemma optimize_run_example:
  "optimize (\<lambda>i. False) (\<lambda>t a. 0) [] (\<lambda>vp n t. Inr []) (\<lambda>n m. Some []) (\<lambda>n c r. Inr None)
      [\<lparr>source = Some ''#000000'', target = Some ''#ffffff'', weight = Some 1\<rparr>] 1
      \<lparr>existingBest = None, minOpacityPct = None, maxOpacityPct = None,
       allowHsl = False, allowLevels = False, extensive = False\<rparr>
   = Resolved (RMany [], \<lparr>cancelled = False, bestResult = None, topSolutions = [], tick = 7, found = []\<rparr>)"
  by (simp add: optimize_def greedySearchSequences_def validPairs_def Let_def dedupe_def
      interact_def parseColor_000000 del: parseColor.simps)

lemma optimize_cancelled_example:
  "optimize (\<lambda>i. i = 0) (\<lambda>t a. 0) [multiplyMode] (\<lambda>vp n t. Inr []) (\<lambda>n m. Some [])
      (\<lambda>n c r. Inr None)
      [\<lparr>source = Some ''#000000'', target = Some ''#ffffff'', weight = Some 1\<rparr>] 1
      \<lparr>existingBest = None, minOpacityPct = None, maxOpacityPct = None,
       allowHsl = False, allowLevels = False, extensive = False\<rparr>
   = Resolved (RNull, \<lparr>cancelled = True, bestResult = None, topSolutions = [], tick = 1, found = []\<rparr>)"
  by (simp add: optimize_def validPairs_def Let_def interact_def)







section \<open>Inputs without a complete pair\<close>


lemma validPairs_empty:
  "\<forall>p\<in>set pairs. \<not> (truthy (source p) \<and> truthy (target p)) \<Longrightarrow> validPairs pairs = []"
  by (auto simp: validPairs_def filter_empty_conv)

text \<open>
  C8.  When no pair of the input has both a source and a target, \<^verbatim>\<open>optimizeBlend\<close>,
  \<^verbatim>\<open>optimizeHsl\<close>, \<^verbatim>\<open>optimizeLevels\<close> and the multi-step \<^verbatim>\<open>optimize\<close> each
  return \<^verbatim>\<open>null\<close>, and none of them throws.
\<close>

theorem optimizers_return_null_without_pairs:
  assumes "\<forall>p\<in>set pairs. \<not> (truthy (source p) \<and> truthy (target p))"
  shows "optimizeBlend dE mode pairs = None
       \<and> optimizeHsl dE applyHslAdjustment pairs = Inr None
       \<and> optimizeLevels dE applyLevelsAdjustment pairs = Inr None
       \<and> (\<exists>st. optimize env dE modes greedy generate joint pairs numSteps options
                 = Resolved (RNull, st))"
  using validPairs_empty [OF assms]
  by (simp add: optimizeBlend_def optimizeHsl_def optimizeLevels_def optimize_def Let_def)

theorem optimizers_return_null_without_pairs_witness:
  "\<not> (truthy (source \<lparr>source = None, target = Some ''#ffffff'', weight = Some 1\<rparr>)
        \<and> truthy (target \<lparr>source = None, target = Some ''#ffffff'', weight = Some 1\<rparr>))
   \<and> optimizeBlend (\<lambda>t a. 0) multiplyMode
         [\<lparr>source = None, target = Some ''#ffffff'', weight = Some 1\<rparr>] = None
   \<and> optimizeHsl (\<lambda>t a. 0) (\<lambda>s h sa l. s)
         [\<lparr>source = None, target = Some ''#ffffff'', weight = Some 1\<rparr>] = Inr None
   \<and> optimizeLevels (\<lambda>t a. 0) (\<lambda>s ps. s)
         [\<lparr>source = None, target = Some ''#ffffff'', weight = Some 1\<rparr>] = Inr None
   \<and> (\<exists>st. optimize (\<lambda>i. False) (\<lambda>t a. 0) [multiplyMode] (\<lambda>vp n t. Inr []) (\<lambda>n m. Some [])
              (\<lambda>n c r. Inr None)
              [\<lparr>source = None, target = Some ''#ffffff'', weight = Some 1\<rparr>] 2
              \<lparr>existingBest = None, minOpacityPct = None, maxOpacityPct = None,
               allowHsl = False, allowLevels = False, extensive = False\<rparr> = Resolved (RNull, st))"
proof -
  have h: "\<forall>p\<in>set [\<lparr>source = None, target = Some ''#ffffff'', weight = Some 1\<rparr>].
             \<not> (truthy (source p) \<and> truthy (target p))"
    by simp
  show ?thesis
    using optimizers_return_null_without_pairs [OF h, of "\<lambda>t a. 0" multiplyMode "\<lambda>s h sa l. s"
        "\<lambda>s ps. s" "\<lambda>i. False" "[multiplyMode]" "\<lambda>vp n t. Inr []" "\<lambda>n m. Some []" "\<lambda>n c r. Inr None" 2
        "\<lparr>existingBest = None, minOpacityPct = None, maxOpacityPct = None,
               allowHsl = False, allowLevels = False, extensive = False\<rparr>"]
    by simp
qed


lemma jointSearch_null_without_pairs:
  "\<forall>p\<in>set pairs. \<not> (truthy (source p) \<and> truthy (target p)) \<Longrightarrow>
   jointSearch objective rnd pairs mseq blends numRestarts basinHops minOpacity maxOpacity = None"
  by (simp add: jointSearch_def validPairs_empty)

section \<open>The retained top solutions\<close>














lemma set_take_whole: "length xs \<le> n \<Longrightarrow> set (take n (sort_key f xs)) = set xs"
  by simp

text \<open>
  One stored result of error 2 and an empty step list: a result with a new key is added
  behind it, a result with the same key and error 1 replaces it, and a result with the same
  key and error 2 leaves it.
\<close>

lemma update_new_key_example:
  "updateTopSolutions [sampleResult 2 []] (sampleResult 3 [sampleStep ''Multiply'' ''#808080''])
   = [sampleResult 2 [], sampleResult 3 [sampleStep ''Multiply'' ''#808080'']]"
  by (simp add: updateTopSolutions_def Let_def getKey_def sampleResult_def sampleStep_def)

lemma update_replace_example:
  "updateTopSolutions [sampleResult 2 []] (sampleResult 1 []) = [sampleResult 1 []]"
  by (simp add: updateTopSolutions_def Let_def getKey_def sampleResult_def)

lemma update_keep_example:
  "updateTopSolutions [sampleResult 2 []] (sampleResult 2 []) = [sampleResult 2 []]"
  by (simp add: updateTopSolutions_def Let_def getKey_def sampleResult_def)





section \<open>Pairs of weight zero\<close>


lemma errorStep_cases:
  "(\<not> parses p \<and> errorStep dE achieve acc p = acc)
   \<or> (parses p \<and> (\<exists>pr. errorStep dE achieve acc p
          = (fst acc @ [pr], fst (snd acc) + error pr * weightOf p,
             fst (snd (snd acc)) + weightOf p, max (snd (snd (snd acc))) (error pr))
        \<and> (\<exists>t a. error pr = dE t a)))"
  by (cases acc) (auto simp: errorStep_def parses_def Let_def split: option.splits simp del: weightOf.simps)

lemma foldl_errorStep_zero_weights:
  assumes "\<forall>p\<in>set pairs. weightOf p = 0"
  shows "fst (snd (foldl (errorStep dE achieve) acc pairs)) = fst (snd acc)
       \<and> fst (snd (snd (foldl (errorStep dE achieve) acc pairs))) = fst (snd (snd acc))"
  using assms
proof (induction pairs arbitrary: acc)
  case Nil
  show ?case by simp
next
  case (Cons p pairs)
  have w: "weightOf p = 0" using Cons.prems by simp
  have s: "fst (snd (errorStep dE achieve acc p)) = fst (snd acc)
         \<and> fst (snd (snd (errorStep dE achieve acc p))) = fst (snd (snd acc))"
    using errorStep_cases [of p dE achieve acc] w by auto
  show ?case using Cons.IH [of "errorStep dE achieve acc p"] Cons.prems s by simp
qed

lemma foldl_errorStep_max:
  assumes "\<forall>pr\<in>set (fst acc). error pr \<le> snd (snd (snd acc))"
  shows "\<forall>pr\<in>set (fst (foldl (errorStep dE achieve) acc pairs)).
            error pr \<le> snd (snd (snd (foldl (errorStep dE achieve) acc pairs)))"
  using assms
proof (induction pairs arbitrary: acc)
  case Nil
  then show ?case by simp
next
  case (Cons p pairs)
  have "\<forall>pr\<in>set (fst (errorStep dE achieve acc p)). error pr \<le> snd (snd (snd (errorStep dE achieve acc p)))"
    using errorStep_cases [of p dE achieve acc] Cons.prems by fastforce
  then show ?case using Cons.IH [of "errorStep dE achieve acc p"] by simp
qed

lemma foldl_errorStep_constant:
  assumes "\<forall>t a. dE t a = E"
  shows "snd (snd (snd (foldl (errorStep dE achieve) acc pairs)))
       = (if \<exists>p\<in>set pairs. parses p then max (snd (snd (snd acc))) E else snd (snd (snd acc)))"
proof (induction pairs arbitrary: acc)
  case Nil
  show ?case by simp
next
  case (Cons p pairs)
  have s: "snd (snd (snd (errorStep dE achieve acc p)))
         = (if parses p then max (snd (snd (snd acc))) E else snd (snd (snd acc)))"
    using errorStep_cases [of p dE achieve acc] assms by auto
  show ?case unfolding foldl_Cons Cons.IH [of "errorStep dE achieve acc p"] s
    by (auto simp: max_def)
qed

lemma computeError_zero_weights:
  assumes "\<forall>p\<in>set pairs. weightOf p = 0"
  shows "totalError (computeError dE achieve pairs) = 0 \<and> avgError (computeError dE achieve pairs) = 0
       \<and> (\<forall>pr\<in>set (perPairResults (computeError dE achieve pairs)).
             error pr \<le> maxError (computeError dE achieve pairs))
       \<and> ((\<forall>t a. dE t a = E) \<and> 0 \<le> E \<and> (\<exists>p\<in>set pairs. parses p) \<longrightarrow>
             maxError (computeError dE achieve pairs) = E)"
proof -
  obtain rs twe tw m where f: "foldl (errorStep dE achieve) ([], 0, 0, 0) pairs = (rs, twe, tw, m)"
    by (metis prod_cases4)
  have z: "twe = 0" "tw = 0"
    using foldl_errorStep_zero_weights [OF assms, of dE achieve "([], 0, 0, 0)"] f by simp_all
  have mx: "\<forall>pr\<in>set rs. error pr \<le> m"
    using foldl_errorStep_max [of "([], 0, 0, 0)" dE achieve pairs] f by simp
  have c: "(\<forall>t a. dE t a = E) \<and> 0 \<le> E \<and> (\<exists>p\<in>set pairs. parses p) \<longrightarrow> m = E"
    using foldl_errorStep_constant [of dE E achieve "([], 0, 0, 0)" pairs] f by (auto simp: max_def)
  show ?thesis
    unfolding computeError_def f using z mx c by simp
qed

text \<open>
  C10.  If every complete pair has weight 0 and there is at least one, then
  \<^verbatim>\<open>computeBlendError\<close> returns total and average error 0 for every blend color, and
  \<^verbatim>\<open>optimizeBlend\<close> returns a result of quality \<^verbatim>\<open>exact\<close> with total and average
  error 0, whatever the distance \<open>dE\<close> between achieved and target colors is; the
  per-pair errors are still recorded and bounded by \<^verbatim>\<open>maxError\<close>, which for a distance
  that is \<open>E\<close> everywhere is \<open>E\<close> itself.
\<close>

theorem zero_weights_report_exact:
  assumes "\<forall>p\<in>set (validPairs pairs). weightOf p = 0" and "validPairs pairs \<noteq> []"
  shows "totalError (computeBlendError dE (name mode) (validPairs pairs) blendNorm) = 0
       \<and> avgError (computeBlendError dE (name mode) (validPairs pairs) blendNorm) = 0
       \<and> (\<exists>r. optimizeBlend dE mode pairs = Some r
              \<and> totalError r = 0 \<and> avgError r = 0 \<and> quality r = ''exact''
              \<and> (\<forall>pr\<in>set (perPairResults r). error pr \<le> maxError r)
              \<and> ((\<forall>t a. dE t a = E) \<and> 0 \<le> E \<and> (\<exists>p\<in>set (validPairs pairs). parses p) \<longrightarrow>
                    maxError r = E))"
proof -
  note z = computeError_zero_weights [OF assms(1), of dE _ E]
  show ?thesis
    using assms(2) z
    by (simp add: optimizeBlend_def Let_def computeBlendError_def qualityOf_def)
qed


theorem zero_weights_report_exact_witness:
  "weightOf \<lparr>source = Some ''#000000'', target = Some ''#ffffff'', weight = Some 0\<rparr> = 0
   \<and> validPairs [\<lparr>source = Some ''#000000'', target = Some ''#ffffff'', weight = Some 0\<rparr>] \<noteq> []
   \<and> parses \<lparr>source = Some ''#000000'', target = Some ''#ffffff'', weight = Some 0\<rparr>
   \<and> (\<exists>r. optimizeBlend (\<lambda>t a. 100) multiplyMode
              [\<lparr>source = Some ''#000000'', target = Some ''#ffffff'', weight = Some 0\<rparr>] = Some r
          \<and> totalError r = 0 \<and> avgError r = 0 \<and> quality r = ''exact'' \<and> maxError r = 100)"
proof -
  let ?p = "\<lparr>source = Some ''#000000'', target = Some ''#ffffff'', weight = Some 0\<rparr>"
  have v: "validPairs [?p] = [?p]" by (simp add: validPairs_def)
  have h1: "\<forall>p\<in>set (validPairs [?p]). weightOf p = 0" unfolding v by simp
  have h2: "validPairs [?p] \<noteq> []" unfolding v by simp
  have ps: "parses ?p"
    unfolding parses_def by (simp add: parseColor_000000 parseColor_ffffff del: parseColor.simps)
  have ex: "\<exists>p\<in>set (validPairs [?p]). parses p" unfolding v using ps by simp
  show ?thesis
    using zero_weights_report_exact [OF h1 h2, of "\<lambda>t a. 100" multiplyMode "[]" 100] ps ex h2
    by auto
qed

end
